theory Spec2Isabelle
  imports Complex_Main
begin

section \<open>Python values and errors\<close>

text \<open>
  The program under study is \<^verbatim>\<open>display.py\<close>, a Python 2 script with the single function
  \<^verbatim>\<open>main\<close> (and the nested helper \<^verbatim>\<open>zscale\<close>).  Exceptions are values of \<open>py_error\<close>.
\<close>

datatype py_error =
  ValueError | AssertionError | IndexError | ZeroDivisionError | OverflowError
  | InvalidSelectionError

text \<open>The first error of two computations in sequence.\<close>

definition and_then :: "py_error + 'a \<Rightarrow> ('a \<Rightarrow> py_error + 'b) \<Rightarrow> py_error + 'b" where
  "and_then r f = (case r of Inl e \<Rightarrow> Inl e | Inr v \<Rightarrow> f v)"

text \<open>\<^verbatim>\<open>str.split(',')\<close>: always at least one token, empty tokens are kept.\<close>

fun split_on :: "char \<Rightarrow> string \<Rightarrow> string list" where
  "split_on c [] = [[]]"
| "split_on c (x # xs) =
     (if x = c then [] # split_on c xs
      else (case split_on c xs of
              [] \<Rightarrow> [[x]]
            | t # ts \<Rightarrow> (x # t) # ts))"

section \<open>Python floats\<close>

text \<open>
  A Python float is an IEEE binary64 value: a number, the negative zero, an infinity
  (\<open>Infinity True\<close> is the negative one) or NaN.  The region bounds read by \<^verbatim>\<open>float\<close>, their
  conversion to pixels (lines 201-204) and their printing with \<^verbatim>\<open>%f\<close> (line 155) are
  modelled with these values and with rounding to binary64.  The pixel scale, the flux
  values and the ellipse parameters are finite numbers, and the arithmetic on them
  (lines 226-297 and 328-371) is modelled in exact reals.
\<close>

datatype pyfloat = Num real | NegZero | Infinity bool | NaN

definition val :: "pyfloat \<Rightarrow> real" where
  "val x = (case x of Num v \<Rightarrow> v | _ \<Rightarrow> 0)"

definition is_finite :: "pyfloat \<Rightarrow> bool" where
  "is_finite x = (case x of Num v \<Rightarrow> True | NegZero \<Rightarrow> True | _ \<Rightarrow> False)"

text \<open>The comparison \<^verbatim>\<open>x < y\<close> of two floats: false when either is NaN.\<close>

definition py_less :: "pyfloat \<Rightarrow> pyfloat \<Rightarrow> bool" where
  "py_less x y =
     (if x = NaN \<or> y = NaN then False
      else if x = Infinity True then y \<noteq> Infinity True
      else if y = Infinity False then x \<noteq> Infinity False
      else if x = Infinity False \<or> y = Infinity True then False
      else val x < val y)"

text \<open>Rounding to the nearest integer, ties to the even one.\<close>

definition round_half_even :: "real \<Rightarrow> int" where
  "round_half_even x =
     (let f = \<lfloor>x\<rfloor>; r = x - real_of_int f
      in if r < 1 / 2 then f
         else if 1 / 2 < r then f + 1
         else if even f then f else f + 1)"

text \<open>
  Rounding of a real number to binary64 (to nearest, ties to even): 53 significant bits,
  exponents from -1022 on (below that the spacing stays \<open>2\<^sup>-\<^sup>1\<^sup>0\<^sup>7\<^sup>4\<close>), infinity from
  \<open>2\<^sup>1\<^sup>0\<^sup>2\<^sup>4\<close> on.
\<close>

definition pow2 :: "int \<Rightarrow> real" where
  "pow2 e = (if 0 \<le> e then 2 ^ nat e else 1 / 2 ^ nat (- e))"

definition exponent64 :: "real \<Rightarrow> int" where
  "exponent64 x = max (- 1022) \<lfloor>log 2 \<bar>x\<bar>\<rfloor>"

definition binary64 :: "real \<Rightarrow> pyfloat" where
  "binary64 x =
     (if x = 0 then Num 0
      else (let u = pow2 (exponent64 x - 52);
                y = real_of_int (round_half_even (x / u)) * u
            in if pow2 1024 \<le> \<bar>y\<bar> then Infinity (x < 0)
               else if y = 0 \<and> x < 0 then NegZero
               else Num y))"

text \<open>The numbers that are binary64 values.\<close>

definition is_float :: "pyfloat \<Rightarrow> bool" where
  "is_float x = (case x of Num v \<Rightarrow> binary64 v = Num v | _ \<Rightarrow> True)"

text \<open>
  Float division by a finite non-zero number and float addition of a finite number
  (the caller raises ZeroDivisionError for a zero divisor).
\<close>

definition fdiv :: "pyfloat \<Rightarrow> real \<Rightarrow> pyfloat" where
  "fdiv x d =
     (case x of
        Num v \<Rightarrow> if v = 0 then (if d < 0 then NegZero else Num 0) else binary64 (v / d)
      | NegZero \<Rightarrow> if d < 0 then Num 0 else NegZero
      | Infinity s \<Rightarrow> Infinity (s \<noteq> (d < 0))
      | NaN \<Rightarrow> NaN)"

definition fadd :: "pyfloat \<Rightarrow> real \<Rightarrow> pyfloat" where
  "fadd x h =
     (case x of
        Num v \<Rightarrow> binary64 (v + h)
      | NegZero \<Rightarrow> binary64 h
      | Infinity s \<Rightarrow> Infinity s
      | NaN \<Rightarrow> NaN)"

text \<open>
  \<^verbatim>\<open>int(math.floor(x))\<close> and \<^verbatim>\<open>int(math.ceil(x))\<close>: the conversion to an integer raises
  OverflowError for an infinity and ValueError for NaN.
\<close>

definition int_floor :: "pyfloat \<Rightarrow> py_error + int" where
  "int_floor x =
     (case x of
        Num v \<Rightarrow> Inr \<lfloor>v\<rfloor>
      | NegZero \<Rightarrow> Inr 0
      | Infinity s \<Rightarrow> Inl OverflowError
      | NaN \<Rightarrow> Inl ValueError)"

definition int_ceil :: "pyfloat \<Rightarrow> py_error + int" where
  "int_ceil x =
     (case x of
        Num v \<Rightarrow> Inr \<lceil>v\<rceil>
      | NegZero \<Rightarrow> Inr 0
      | Infinity s \<Rightarrow> Inl OverflowError
      | NaN \<Rightarrow> Inl ValueError)"

section \<open>Region strings\<close>

text \<open>
  The region strings of \<^verbatim>\<open>--select-region\<close> and \<^verbatim>\<open>--view-region\<close> (lines 148-151 and
  193-196).  Python's builtin \<^verbatim>\<open>float\<close> is the parameter \<open>float\<close>: \<open>None\<close> stands for
  its ValueError.  Indexing an empty string raises IndexError; a wrong number of tokens
  fails the tuple unpacking with ValueError.
\<close>

definition parse_region ::
  "(string \<Rightarrow> pyfloat option) \<Rightarrow> string
     \<Rightarrow> py_error + (pyfloat \<times> pyfloat \<times> pyfloat \<times> pyfloat)" where
  "parse_region float s =
     (if s = [] then Inl IndexError
      else if \<not> (hd s = CHR ''['' \<and> last s = CHR '']'') then Inl AssertionError
      else (case those (map float (split_on CHR '','' (butlast (tl s)))) of
              None \<Rightarrow> Inl ValueError
            | Some [xmin, xmax, ymin, ymax] \<Rightarrow>
                if py_less xmin xmax \<and> py_less ymin ymax then Inr (xmin, xmax, ymin, ymax)
                else Inl AssertionError
            | Some _ \<Rightarrow> Inl ValueError))"

section \<open>Integer pixel bounds (galsim.BoundsI)\<close>

record BoundsI =
  bxmin :: int
  bxmax :: int
  bymin :: int
  bymax :: int

definition isDefined :: "BoundsI \<Rightarrow> bool" where
  "isDefined b = (bxmin b \<le> bxmax b \<and> bymin b \<le> bymax b)"

section \<open>Viewport: the explicit view region (lines 191-208)\<close>

text \<open>
  \<^verbatim>\<open>0.5*image_dimension\<close>: the integer is converted to a float first, which raises
  OverflowError when it is too large.
\<close>

definition half_dimension :: "int \<Rightarrow> py_error + real" where
  "half_dimension image_dimension =
     (case binary64 (real_of_int image_dimension) of
        Num w \<Rightarrow> Inr (w / 2)
      | NegZero \<Rightarrow> Inr 0
      | Infinity s \<Rightarrow> Inl OverflowError
      | NaN \<Rightarrow> Inl OverflowError)"

text \<open>
  Lines 201-204: arcseconds relative to the image centre to pixels relative to the
  bottom-left corner, \<^verbatim>\<open>v/scale + 0.5*image_dimension\<close>, each operation rounded to
  binary64.  The division by a zero pixel scale is Python's ZeroDivisionError.
\<close>

definition to_pixels :: "real \<Rightarrow> int \<Rightarrow> pyfloat \<Rightarrow> py_error + pyfloat" where
  "to_pixels scale image_dimension v =
     (if scale = 0 then Inl ZeroDivisionError
      else and_then (half_dimension image_dimension) (\<lambda>h. Inr (fadd (fdiv v scale) h)))"

definition view_region_pixels ::
  "real \<Rightarrow> int \<Rightarrow> int \<Rightarrow> pyfloat \<times> pyfloat \<times> pyfloat \<times> pyfloat
     \<Rightarrow> py_error + (pyfloat \<times> pyfloat \<times> pyfloat \<times> pyfloat)" where
  "view_region_pixels scale image_width image_height r =
     (case r of (xmin, xmax, ymin, ymax) \<Rightarrow>
        and_then (to_pixels scale image_width xmin) (\<lambda>pxmin.
        and_then (to_pixels scale image_width xmax) (\<lambda>pxmax.
        and_then (to_pixels scale image_height ymin) (\<lambda>pymin.
        and_then (to_pixels scale image_height ymax) (\<lambda>pymax.
        Inr (pxmin, pxmax, pymin, pymax))))))"

text \<open>Lines 206-208: the integer bounds that cover the window.\<close>

definition cover_bounds :: "pyfloat \<times> pyfloat \<times> pyfloat \<times> pyfloat \<Rightarrow> py_error + BoundsI" where
  "cover_bounds p =
     (case p of (xmin, xmax, ymin, ymax) \<Rightarrow>
        and_then (int_floor xmin) (\<lambda>x0.
        and_then (int_ceil xmax) (\<lambda>x1.
        and_then (int_floor ymin) (\<lambda>y0.
        and_then (int_ceil ymax) (\<lambda>y1.
        Inr \<lparr> bxmin = x0, bxmax = x1 - 1, bymin = y0, bymax = y1 - 1 \<rparr>)))))"

text \<open>
  Lines 201-208: the window in pixels (finite once the integer bounds exist) and the
  integer bounds.
\<close>

definition convert_view_region ::
  "real \<Rightarrow> int \<Rightarrow> int \<Rightarrow> pyfloat \<times> pyfloat \<times> pyfloat \<times> pyfloat
     \<Rightarrow> py_error + ((real \<times> real \<times> real \<times> real) \<times> BoundsI)" where
  "convert_view_region scale image_width image_height r =
     and_then (view_region_pixels scale image_width image_height r) (\<lambda>p.
     and_then (cover_bounds p) (\<lambda>b.
     (case p of (xmin, xmax, ymin, ymax) \<Rightarrow>
        Inr ((val xmin, val xmax, val ymin, val ymax), b))))"

text \<open>Lines 192-208, the branch taken when \<^verbatim>\<open>--view-region\<close> is given.\<close>

definition resolve_view_region ::
  "(string \<Rightarrow> pyfloat option) \<Rightarrow> real \<Rightarrow> int \<Rightarrow> int \<Rightarrow> string
     \<Rightarrow> py_error + ((real \<times> real \<times> real \<times> real) \<times> BoundsI)" where
  "resolve_view_region float scale image_width image_height s =
     and_then (parse_region float s) (convert_view_region scale image_width image_height)"

section \<open>Decimal literals\<close>

text \<open>
  A reader for plain decimal literals (an optional minus sign, digits, an optional
  fraction), rounded to binary64.  On these strings it agrees with Python's \<^verbatim>\<open>float\<close>;
  it is the instance of the parameter \<open>float\<close> at which the examples are evaluated.
\<close>

definition digit_val :: "char \<Rightarrow> nat option" where
  "digit_val c =
     (let before = takeWhile (\<lambda>d. d \<noteq> c) ''0123456789''
      in if length before < 10 then Some (length before) else None)"

fun digits_val :: "nat \<Rightarrow> string \<Rightarrow> nat option" where
  "digits_val acc [] = Some acc"
| "digits_val acc (c # cs) =
     (case digit_val c of None \<Rightarrow> None | Some d \<Rightarrow> digits_val (10 * acc + d) cs)"

definition unsigned_literal :: "string \<Rightarrow> real option" where
  "unsigned_literal s =
     (let ip = takeWhile (\<lambda>c. c \<noteq> CHR ''.'') s; rest = dropWhile (\<lambda>c. c \<noteq> CHR ''.'') s
      in if ip = [] then None
         else (case digits_val 0 ip of
                 None \<Rightarrow> None
               | Some n \<Rightarrow>
                   (case rest of
                      [] \<Rightarrow> Some (real n)
                    | _ # fp \<Rightarrow>
                        if fp = [] then None
                        else (case digits_val 0 fp of
                                None \<Rightarrow> None
                              | Some m \<Rightarrow> Some (real n + real m / 10 ^ length fp)))))"

definition float_literal :: "string \<Rightarrow> pyfloat option" where
  "float_literal s =
     (case s of
        [] \<Rightarrow> None
      | c # cs \<Rightarrow>
          if c = CHR ''-''
          then map_option (\<lambda>v. if v = 0 then NegZero else binary64 (- v)) (unsigned_literal cs)
          else map_option binary64 (unsigned_literal s))"

section \<open>String formatting\<close>

text \<open>\<^verbatim>\<open>'%d' % n\<close>: a minus sign for negative numbers, then the decimal digits.\<close>

fun nat_digits :: "nat \<Rightarrow> string" where
  "nat_digits n =
     (if n < 10 then [''0123456789'' ! n]
      else nat_digits (n div 10) @ [''0123456789'' ! (n mod 10)])"

declare nat_digits.simps [simp del]

definition fmt_d :: "int \<Rightarrow> string" where
  "fmt_d n = (if n < 0 then CHR ''-'' # nat_digits (nat (- n)) else nat_digits (nat n))"

text \<open>
  \<^verbatim>\<open>'%f' % x\<close> for a number below \<open>10\<^sup>5\<^sup>0\<close>: six digits after the point, the value rounded
  to the nearest multiple of \<open>10\<^sup>-\<^sup>6\<close> (ties to even), a minus sign for negative \<open>x\<close>.
\<close>

definition pad6 :: "string \<Rightarrow> string" where
  "pad6 ds = replicate (6 - length ds) CHR ''0'' @ ds"

definition fmt_fixed :: "real \<Rightarrow> string" where
  "fmt_fixed x =
     (let n = nat (round_half_even (\<bar>x\<bar> * 1000000))
      in (if x < 0 then [CHR ''-''] else [])
         @ nat_digits (n div 1000000) @ [CHR ''.''] @ pad6 (nat_digits (n mod 1000000)))"

text \<open>
  From \<^verbatim>\<open>1e50\<close> on, Python 2 prints \<^verbatim>\<open>'%f' % x\<close> as \<^verbatim>\<open>'%g' % x\<close>: six significant digits
  without trailing zeros, then the exponent.
\<close>

definition fmt_exponent :: "real \<Rightarrow> string" where
  "fmt_exponent x =
     (let e0 = \<lfloor>log 10 \<bar>x\<bar>\<rfloor>;
          m0 = round_half_even (\<bar>x\<bar> / 10 powr (real_of_int e0 - 5));
          m = (if m0 = 1000000 then 100000 else m0);
          e = (if m0 = 1000000 then e0 + 1 else e0);
          sig = rev (dropWhile (\<lambda>c. c = CHR ''0'') (rev (nat_digits (nat m))))
      in (if x < 0 then [CHR ''-''] else [])
         @ [hd sig] @ (if tl sig = [] then [] else CHR ''.'' # tl sig)
         @ ''e+'' @ nat_digits (nat e))"

text \<open>\<^verbatim>\<open>'%f' % x\<close> for a float.\<close>

definition fmt_f :: "pyfloat \<Rightarrow> string" where
  "fmt_f x =
     (case x of
        Num v \<Rightarrow> if val (binary64 (10 ^ 50)) \<le> \<bar>v\<bar> then fmt_exponent v else fmt_fixed v
      | NegZero \<Rightarrow> ''-0.000000''
      | Infinity s \<Rightarrow> if s then ''-inf'' else ''inf''
      | NaN \<Rightarrow> ''nan'')"

text \<open>A number rounded to six decimals: what the text of \<open>fmt_fixed x\<close> denotes.\<close>

definition round6 :: "real \<Rightarrow> real" where
  "round6 x =
     (if x < 0 then - 1 else 1) * real (nat (round_half_even (\<bar>x\<bar> * 1000000))) / 1000000"

section \<open>Messages and control flow of main\<close>

text \<open>
  Every \<^verbatim>\<open>print\<close> of \<^verbatim>\<open>main\<close> outside the \<^verbatim>\<open>--verbose\<close> blocks is a message; the
  verbose blocks only print and are left out.  A step of \<^verbatim>\<open>main\<close> either goes on with
  a value, executes \<^verbatim>\<open>return n\<close>, or raises an exception that \<^verbatim>\<open>main\<close> does not catch.
\<close>

datatype message =
    NoDisplayOrOutput
  | NoPixelsVisible
  | LoadError string
  | InvalidSelectRegion string
  | WarnNoGroup int
  | WarnNoGalaxy int
  | NoStampsAvailable
  | InvalidViewWindow string
  | ViewTooBig
  | NoNonZeroPixels
  | WarnFullImageZscale int
  | InvalidAnnotateFormat string
  | InvalidMatchFormat string

datatype 'a step = Return int | Raise py_error | Go 'a

type_synonym 'a io = "message list \<times> 'a step"

definition andthen :: "'a io \<Rightarrow> ('a \<Rightarrow> 'b io) \<Rightarrow> 'b io" where
  "andthen m f =
     (case m of
        (out, Go x) \<Rightarrow> (case f x of (out', r) \<Rightarrow> (out @ out', r))
      | (out, Return n) \<Rightarrow> (out, Return n)
      | (out, Raise e) \<Rightarrow> (out, Raise e))"

text \<open>Truth value of an optional string argument: \<^verbatim>\<open>None\<close> and the empty string are
  false.\<close>

definition truthy :: "string option \<Rightarrow> bool" where
  "truthy s = (case s of None \<Rightarrow> False | Some t \<Rightarrow> t \<noteq> [])"

section \<open>Command line arguments\<close>

text \<open>
  The parsed arguments that decide what \<^verbatim>\<open>main\<close> computes.  The colour and font
  options only style the drawing and are left out.
\<close>

record Args =
  no_display :: bool
  output_name :: "string option"
  galaxy :: "int list"
  group :: "int list"
  select :: "string list"
  select_region :: "string option"
  match_catalog :: "string option"
  match_info :: "string option"
  magnification :: real
  crop :: bool
  view_region :: "string option"
  draw_moments :: bool
  info :: "string option"
  no_crosshair :: bool
  clip_lo_noise_fraction :: real
  clip_hi_percentile :: real
  hide_background :: bool
  hide_selected :: bool
  add_noise :: "int option"
  clip_noise :: real
  dpi :: real
  max_view_size :: int
  colormap :: string
  highlight :: string

text \<open>The defaults of lines 23-113.\<close>

definition default_args :: Args where
  "default_args =
     \<lparr> no_display = False, output_name = None, galaxy = [], group = [], select = [],
       select_region = None, match_catalog = None, match_info = None, magnification = 1,
       crop = False, view_region = None, draw_moments = False, info = None,
       no_crosshair = False, clip_lo_noise_fraction = 0.1, clip_hi_percentile = 90,
       hide_background = False, hide_selected = False, add_noise = None, clip_noise = -1,
       dpi = 64, max_view_size = 2048, colormap = ''YlGnBu'', highlight = ''red'' \<rparr>"

section \<open>Images, survey and catalog\<close>

text \<open>
  \<^verbatim>\<open>galsim.BoundsI\<close>: bounds are defined when neither axis is inverted; the area of
  undefined bounds is 0; the intersection of bounds that do not overlap is undefined.
\<close>

definition undefined_bounds :: BoundsI where
  "undefined_bounds = \<lparr> bxmin = 0, bxmax = -1, bymin = 0, bymax = -1 \<rparr>"

definition area :: "BoundsI \<Rightarrow> int" where
  "area b = (if isDefined b then (bxmax b - bxmin b + 1) * (bymax b - bymin b + 1) else 0)"

definition intersect :: "BoundsI \<Rightarrow> BoundsI \<Rightarrow> BoundsI" where
  "intersect b c =
     (if \<not> isDefined b \<or> \<not> isDefined c then undefined_bounds
      else (let r = \<lparr> bxmin = max (bxmin b) (bxmin c), bxmax = min (bxmax b) (bxmax c),
                      bymin = max (bymin b) (bymin c), bymax = min (bymax b) (bymax c) \<rparr>
            in if isDefined r then r else undefined_bounds))"

definition includes_pos :: "BoundsI \<Rightarrow> int \<Rightarrow> int \<Rightarrow> bool" where
  "includes_pos b x y = (bxmin b \<le> x \<and> x \<le> bxmax b \<and> bymin b \<le> y \<and> y \<le> bymax b)"

text \<open>
  \<^verbatim>\<open>galsim.Image\<close>: bounds and one flux value for each pixel position inside them.  The
  \<^verbatim>\<open>array\<close> attribute has one row for each y and one column for each x.
\<close>

record Image =
  bounds :: BoundsI
  pix :: "int \<Rightarrow> int \<Rightarrow> real"

definition new_image :: "BoundsI \<Rightarrow> Image" where
  "new_image b = \<lparr> bounds = b, pix = (\<lambda>x y. 0) \<rparr>"

definition array :: "Image \<Rightarrow> real list list" where
  "array im =
     map (\<lambda>y. map (\<lambda>x. pix im x y) [bxmin (bounds im) .. bxmax (bounds im)])
       [bymin (bounds im) .. bymax (bounds im)]"

text \<open>\<^verbatim>\<open>dst[overlap] = src[overlap]\<close>.\<close>

definition copy_overlap :: "Image \<Rightarrow> BoundsI \<Rightarrow> Image \<Rightarrow> Image" where
  "copy_overlap dst overlap src =
     dst \<lparr> pix := (\<lambda>x y. if includes_pos overlap x y then pix src x y else pix dst x y) \<rparr>"

definition count_nonzero :: "real list list \<Rightarrow> nat" where
  "count_nonzero arr = length (filter (\<lambda>v. v \<noteq> 0) (concat arr))"

record Survey =
  pixel_scale :: real
  image_width :: int
  image_height :: int
  mean_sky_level :: real
  image :: Image

text \<open>A row of \<^verbatim>\<open>results.table\<close>, with the columns that \<^verbatim>\<open>main\<close> reads.\<close>

record TableRow =
  row_db_id :: int
  row_grp_id :: int
  row_dx :: real
  row_dy :: real
  row_a :: real
  row_b :: real
  row_beta :: real
  row_match :: int

record Results =
  survey :: Survey
  table :: "TableRow list"
  stamps :: bool

definition num_objects :: "Results \<Rightarrow> nat" where
  "num_objects results = length (table results)"

text \<open>
  A row of the detection catalog: its fields by name.  \<^verbatim>\<open>main\<close> treats a missing field
  as IndexError (lines 374-381).
\<close>

type_synonym DetectedRow = "(string \<times> real) list"

definition field :: "DetectedRow \<Rightarrow> string \<Rightarrow> py_error + real" where
  "field r k = (case map_of r k of None \<Rightarrow> Inl IndexError | Some v \<Rightarrow> Inr v)"

type_synonym rgb = "real \<times> real \<times> real"

section \<open>External collaborators\<close>

text \<open>
  What \<^verbatim>\<open>main\<close> calls outside this file, as parameters: Python's \<^verbatim>\<open>float\<close> and
  \<^verbatim>\<open>str.decode('string-escape')\<close> and the \<^verbatim>\<open>%\<close> interpolation of a row (\<open>None\<close> is the
  exception the caller handles or not), the reader and the operations of the results
  object of \<^verbatim>\<open>descwl\<close>, \<^verbatim>\<open>numpy.percentile\<close>, and the colormap, the colour
  conversion and the creation of the figure (\<open>Some e\<close> is an exception) of matplotlib.
  A selection mask has one entry for each table row.
\<close>

record Env =
  py_float :: "string \<Rightarrow> pyfloat option"
  string_escape :: "string \<Rightarrow> string option"
  interpolate :: "string \<Rightarrow> TableRow \<Rightarrow> string option"
  interpolate_match :: "string \<Rightarrow> DetectedRow \<Rightarrow> string option"
  from_args :: "Args \<Rightarrow> string + Results"
  add_noise_op :: "Results \<Rightarrow> int \<Rightarrow> Results"
  match_sextractor :: "Results \<Rightarrow> string \<Rightarrow> py_error + (DetectedRow list \<times> Results)"
  select_op :: "Results \<Rightarrow> string list \<Rightarrow> string \<Rightarrow> py_error + bool list"
  get_subimage :: "Results \<Rightarrow> nat list \<Rightarrow> Image option"
  percentile :: "real list \<Rightarrow> real \<Rightarrow> real"
  get_cmap :: "string \<Rightarrow> real \<Rightarrow> rgb"
  to_rgb :: "string \<Rightarrow> rgb option"
  new_figure :: "real \<Rightarrow> real \<Rightarrow> real \<Rightarrow> py_error option"

section \<open>Object selection (lines 146-183)\<close>

text \<open>Line 155: the four cuts that a select region adds.\<close>

definition region_cuts :: "pyfloat \<times> pyfloat \<times> pyfloat \<times> pyfloat \<Rightarrow> string list" where
  "region_cuts r =
     (case r of (xmin, xmax, ymin, ymax) \<Rightarrow>
        [''dx>='' @ fmt_f xmin, ''dx<'' @ fmt_f xmax, ''dy>='' @ fmt_f ymin, ''dy<'' @ fmt_f ymax])"

text \<open>Lines 147-155: only ValueError and AssertionError are caught.\<close>

definition expand_select_region :: "Env \<Rightarrow> Args \<Rightarrow> string list io" where
  "expand_select_region env args =
     (case select_region args of
        None \<Rightarrow> ([], Go (select args))
      | Some s \<Rightarrow>
          if s = [] then ([], Go (select args))
          else (case parse_region (py_float env) s of
                  Inl e \<Rightarrow>
                    if e = ValueError \<or> e = AssertionError
                    then ([InvalidSelectRegion s], Return (-1))
                    else ([], Raise e)
                | Inr r \<Rightarrow> ([], Go (select args @ region_cuts r))))"

definition any_true :: "bool list \<Rightarrow> bool" where
  "any_true bs = list_ex (\<lambda>v. v) bs"

definition logical_or :: "bool list \<Rightarrow> bool list \<Rightarrow> bool list" where
  "logical_or m n = map2 (\<or>) m n"

text \<open>
  Lines 165-169 and 171-175: the same loop, once for the group identifiers with the cut
  \<^verbatim>\<open>grp_id==%d\<close> and once for the galaxy identifiers with \<^verbatim>\<open>db_id==%d\<close>.
\<close>

fun or_identifiers ::
  "(string \<Rightarrow> py_error + bool list) \<Rightarrow> string \<Rightarrow> (int \<Rightarrow> message) \<Rightarrow> int list \<Rightarrow> bool list
     \<Rightarrow> bool list io" where
  "or_identifiers sel column warn [] selection = ([], Go selection)"
| "or_identifiers sel column warn (identifier # rest) selection =
     (case sel (column @ ''=='' @ fmt_d identifier) of
        Inl e \<Rightarrow> ([], Raise e)
      | Inr selected \<Rightarrow>
          andthen
            (if \<not> any_true selected then [warn identifier] else [],
             Go (logical_or selection selected))
            (or_identifiers sel column warn rest))"

text \<open>Lines 158-175.\<close>

definition perform_selection :: "Env \<Rightarrow> Results \<Rightarrow> Args \<Rightarrow> string list \<Rightarrow> bool list io" where
  "perform_selection env results args cuts =
     (case (if cuts \<noteq> [] then select_op env results cuts ''and''
            else select_op env results [''NONE''] ''and'') of
        Inl e \<Rightarrow> ([], Raise e)
      | Inr selection \<Rightarrow>
          andthen
            (or_identifiers (\<lambda>c. select_op env results [c] ''and'') ''grp_id'' WarnNoGroup
               (group args) selection)
            (or_identifiers (\<lambda>c. select_op env results [c] ''and'') ''db_id'' WarnNoGalaxy
               (galaxy args)))"

text \<open>Line 176: the positions where the mask is true, in table order.\<close>

definition selected_indices :: "Results \<Rightarrow> bool list \<Rightarrow> nat list" where
  "selected_indices results selection =
     map fst (filter snd (zip [0 ..< num_objects results] selection))"

text \<open>Lines 181-183.\<close>

definition check_stamps :: "Results \<Rightarrow> bool list \<Rightarrow> unit io" where
  "check_stamps results selection =
     (if any_true selection \<and> \<not> stamps results then ([NoStampsAvailable], Return (-1))
      else ([], Go ()))"

section \<open>Viewing bounds (lines 191-239)\<close>

text \<open>
  Lines 191-215.  Only the parsing of the view region is inside the \<^verbatim>\<open>try\<close>; an
  exception of the conversion to pixels is not caught.
\<close>

definition resolve_view ::
  "Env \<Rightarrow> Args \<Rightarrow> Survey \<Rightarrow> Image option \<Rightarrow> ((real \<times> real \<times> real \<times> real) \<times> BoundsI) io" where
  "resolve_view env args sv selected_image =
     (case view_region args of
        Some s \<Rightarrow>
          (case parse_region (py_float env) s of
             Inl e \<Rightarrow>
               if e = ValueError \<or> e = AssertionError
               then ([InvalidViewWindow s], Return (-1))
               else ([], Raise e)
           | Inr r \<Rightarrow>
               (case convert_view_region (pixel_scale sv) (image_width sv) (image_height sv) r of
                  Inl e \<Rightarrow> ([], Raise e)
                | Inr v \<Rightarrow> ([], Go v)))
      | None \<Rightarrow>
          (case (if crop args then selected_image else None) of
             Some im \<Rightarrow>
               ([], Go ((real_of_int (bxmin (bounds im)), real_of_int (bxmax (bounds im) + 1),
                         real_of_int (bymin (bounds im)), real_of_int (bymax (bounds im) + 1)),
                        bounds im))
           | None \<Rightarrow>
               ([], Go ((0, real_of_int (image_width sv), 0, real_of_int (image_height sv)),
                        bounds (image sv)))))"

text \<open>Lines 226-232.\<close>

definition check_view_size :: "Args \<Rightarrow> real \<times> real \<times> real \<times> real \<Rightarrow> unit io" where
  "check_view_size args v =
     (case v of (xmin, xmax, ymin, ymax) \<Rightarrow>
        (let view_width = xmax - xmin; view_height = ymax - ymin
         in if view_width * magnification args > real_of_int (max_view_size args)
               \<or> view_height * magnification args > real_of_int (max_view_size args)
            then ([ViewTooBig], Return (-1))
            else ([], Go ())))"

text \<open>
  Lines 233-239: the figure size divides by \<^verbatim>\<open>--dpi\<close>, which raises ZeroDivisionError for
  0; the figure and its axes are made by matplotlib.
\<close>

definition make_figure :: "Env \<Rightarrow> Args \<Rightarrow> real \<times> real \<times> real \<times> real \<Rightarrow> unit io" where
  "make_figure env args v =
     (case v of (xmin, xmax, ymin, ymax) \<Rightarrow>
        if dpi args = 0 then ([], Raise ZeroDivisionError)
        else (let view_width = xmax - xmin; view_height = ymax - ymin;
                  fig_height = magnification args * (view_height / dpi args);
                  fig_width = magnification args * (view_width / dpi args)
              in case new_figure env fig_width fig_height (dpi args) of
                   Some e \<Rightarrow> ([], Raise e)
                 | None \<Rightarrow> ([], Go ())))"

section \<open>Compositing (lines 242-297)\<close>

text \<open>Lines 242-251: the background and highlighted images, sized to the view.\<close>

definition view_buffers :: "Args \<Rightarrow> Survey \<Rightarrow> Image option \<Rightarrow> BoundsI \<Rightarrow> Image \<times> Image" where
  "view_buffers args sv selected_image view_bounds =
     (let background = new_image view_bounds;
          highlighted = background;
          background =
            (if \<not> hide_background args
             then (let overlap = intersect (bounds (image sv)) view_bounds
                   in if area overlap > 0 then copy_overlap background overlap (image sv)
                      else background)
             else background);
          highlighted =
            (case (if \<not> hide_selected args then selected_image else None) of
               Some im \<Rightarrow>
                 (let overlap = intersect (bounds im) view_bounds
                  in if area overlap > 0 then copy_overlap highlighted overlap im
                     else highlighted)
             | None \<Rightarrow> highlighted)
      in (background, highlighted))"

text \<open>Lines 252-255.\<close>

definition check_visible :: "Args \<Rightarrow> Image \<Rightarrow> Image \<Rightarrow> unit io" where
  "check_visible args background highlighted =
     (if count_nonzero (array highlighted) = 0
      then (if hide_background args \<or> count_nonzero (array background) = 0
            then ([NoNonZeroPixels], Return (-1))
            else ([], Go ()))
      else ([], Go ()))"

text \<open>Lines 258-269: the clipping bounds \<open>(vmin, vmax)\<close>.\<close>

definition zscale_bounds :: "Env \<Rightarrow> Args \<Rightarrow> Survey \<Rightarrow> Image option \<Rightarrow> (real \<times> real) io" where
  "zscale_bounds env args sv selected_image =
     andthen
       (case selected_image of
          None \<Rightarrow> ([], Go (array (image sv)))
        | Some im \<Rightarrow>
            if area (bounds im) < 16
            then ([WarnFullImageZscale (area (bounds im))], Go (array (image sv)))
            else ([], Go (array im)))
       (\<lambda>zscale_pixels.
          (let non_zero_pixels = filter (\<lambda>v. v \<noteq> 0) (concat zscale_pixels);
               vmax = percentile env non_zero_pixels (clip_hi_percentile args);
               vmin = clip_lo_noise_fraction args * sqrt (mean_sky_level sv)
           in ([], Go (vmin, vmax))))"

text \<open>Lines 274-275.\<close>

definition zscale :: "real list list \<Rightarrow> real list list" where
  "zscale pixels = map (map sqrt) pixels"

text \<open>\<^verbatim>\<open>numpy.clip\<close>, and the argument of \<^verbatim>\<open>zscale\<close> in lines 278 and 283.\<close>

definition clip :: "real \<Rightarrow> real \<Rightarrow> real \<Rightarrow> real" where
  "clip v lo hi = min (max v lo) hi"

definition clip_normalize :: "real list list \<Rightarrow> real \<Rightarrow> real \<Rightarrow> real list list" where
  "clip_normalize arr vmin vmax = map (map (\<lambda>p. (clip p vmin vmax - vmin) / (vmax - vmin))) arr"

text \<open>Lines 279-280: the test is the truth value of the seed, so the seed 0 counts as
  false.\<close>

definition background_vmin :: "Args \<Rightarrow> Survey \<Rightarrow> real \<Rightarrow> real" where
  "background_vmin args sv vmin =
     (case add_noise args of
        None \<Rightarrow> vmin
      | Some seed \<Rightarrow> if seed \<noteq> 0 then clip_noise args * sqrt (mean_sky_level sv) else vmin)"

text \<open>Lines 278-283: \<open>(highlighted_z, background_z)\<close>.\<close>

definition scaled_layers ::
  "Args \<Rightarrow> Survey \<Rightarrow> Image \<Rightarrow> Image \<Rightarrow> real \<Rightarrow> real \<Rightarrow> real list list \<times> real list list" where
  "scaled_layers args sv background highlighted vmin vmax =
     (let highlighted_z = zscale (clip_normalize (array highlighted) vmin vmax);
          vmin = background_vmin args sv vmin;
          background_z = zscale (clip_normalize (array background) vmin vmax)
      in (highlighted_z, background_z))"

text \<open>Lines 292-297, for one pixel and for the whole array.\<close>

definition blend_pixel :: "real \<Rightarrow> rgb \<Rightarrow> rgb \<Rightarrow> rgb" where
  "blend_pixel alpha color background_rgb =
     (case color of (cr, cg, cb) \<Rightarrow>
        (case background_rgb of (br, bg, bb) \<Rightarrow>
           (alpha * cr + br * (1 - alpha), alpha * cg + bg * (1 - alpha),
            alpha * cb + bb * (1 - alpha))))"

definition blend ::
  "Env \<Rightarrow> Args \<Rightarrow> real list list \<Rightarrow> rgb list list \<Rightarrow> rgb list list io" where
  "blend env args highlighted_z background_rgb =
     (if highlight args \<noteq> [] \<and> highlight args \<noteq> ''none''
      then (case to_rgb env (highlight args) of
              None \<Rightarrow> ([], Raise ValueError)
            | Some color \<Rightarrow>
                ([], Go (map2 (map2 (\<lambda>alpha bg. blend_pixel alpha color bg))
                           highlighted_z background_rgb)))
      else ([], Go background_rgb))"

section \<open>Annotations and ellipses (lines 306-399)\<close>

datatype directive =
    Crosshair real real
  | MatchCrosshair real real
  | Annotation string real real
  | MatchAnnotation string real real

text \<open>
  The state of the loop over the selected objects: what was drawn so far, and the eight
  arrays made by \<^verbatim>\<open>numpy.empty\<close>, where \<open>None\<close> is an entry that was never assigned.
\<close>

record Overlay =
  directives :: "directive list"
  ellipse_centers :: "(real \<times> real) option list"
  ellipse_widths :: "real option list"
  ellipse_heights :: "real option list"
  ellipse_angles :: "real option list"
  match_ellipse_centers :: "(real \<times> real) option list"
  match_ellipse_widths :: "real option list"
  match_ellipse_heights :: "real option list"
  match_ellipse_angles :: "real option list"
  num_match_ellipses :: nat

definition empty_overlay :: "nat \<Rightarrow> Overlay" where
  "empty_overlay num_selected =
     \<lparr> directives = [],
       ellipse_centers = replicate num_selected None,
       ellipse_widths = replicate num_selected None,
       ellipse_heights = replicate num_selected None,
       ellipse_angles = replicate num_selected None,
       match_ellipse_centers = replicate num_selected None,
       match_ellipse_widths = replicate num_selected None,
       match_ellipse_heights = replicate num_selected None,
       match_ellipse_angles = replicate num_selected None,
       num_match_ellipses = 0 \<rparr>"

text \<open>\<^verbatim>\<open>numpy.degrees\<close>.\<close>

definition degrees :: "real \<Rightarrow> real" where
  "degrees x = x * 180 / pi"

text \<open>Lines 306-309.\<close>

definition unescape :: "Env \<Rightarrow> string option \<Rightarrow> string option io" where
  "unescape env fmt =
     (case fmt of
        None \<Rightarrow> ([], Go None)
      | Some t \<Rightarrow>
          if t = [] then ([], Go fmt)
          else (case string_escape env t of
                  None \<Rightarrow> ([], Raise ValueError)
                | Some u \<Rightarrow> ([], Go (Some u))))"

text \<open>Lines 324-326: the detected object matched to a table row, if any.\<close>

definition match_row :: "Args \<Rightarrow> DetectedRow list \<Rightarrow> TableRow \<Rightarrow> py_error + DetectedRow option" where
  "match_row args detected row =
     (if truthy (match_catalog args) \<and> row_match row \<ge> 0
      then (if nat (row_match row) < length detected
            then Inr (Some (detected ! nat (row_match row)))
            else Inl IndexError)
      else Inr None)"

text \<open>Lines 330-332.\<close>

definition match_center ::
  "DetectedRow option \<Rightarrow> py_error + (DetectedRow \<times> real \<times> real) option" where
  "match_center match_inf =
     (case match_inf of
        None \<Rightarrow> Inr None
      | Some m \<Rightarrow>
          (case field m ''X_IMAGE'' of
             Inl e \<Rightarrow> Inl e
           | Inr x \<Rightarrow>
               (case field m ''Y_IMAGE'' of
                  Inl e \<Rightarrow> Inl e
                | Inr y \<Rightarrow> Inr (Some (m, x - 0.5, y - 0.5)))))"

text \<open>
  Lines 374-381: the assignments run in order until a field is missing; the counter is
  advanced only when all four succeeded.
\<close>

definition add_match_ellipse :: "DetectedRow \<Rightarrow> real \<Rightarrow> real \<Rightarrow> Overlay \<Rightarrow> Overlay" where
  "add_match_ellipse m x_match_center y_match_center ov =
     (let n = num_match_ellipses ov;
          ov = ov \<lparr> match_ellipse_centers :=
                      (match_ellipse_centers ov)[n := Some (x_match_center, y_match_center)] \<rparr>
      in case field m ''A_IMAGE'' of
           Inl e \<Rightarrow> ov
         | Inr w \<Rightarrow>
             (let ov = ov \<lparr> match_ellipse_widths := (match_ellipse_widths ov)[n := Some w] \<rparr>
              in case field m ''B_IMAGE'' of
                   Inl e \<Rightarrow> ov
                 | Inr h \<Rightarrow>
                     (let ov = ov \<lparr> match_ellipse_heights :=
                                       (match_ellipse_heights ov)[n := Some h] \<rparr>
                      in case field m ''THETA_IMAGE'' of
                           Inl e \<Rightarrow> ov
                         | Inr t \<Rightarrow>
                             ov \<lparr> match_ellipse_angles :=
                                    (match_ellipse_angles ov)[n := Some t],
                                  num_match_ellipses := n + 1 \<rparr>)))"

text \<open>Lines 367-381.\<close>

definition add_ellipses ::
  "Args \<Rightarrow> real \<Rightarrow> nat \<Rightarrow> TableRow \<Rightarrow> real \<Rightarrow> real \<Rightarrow> (DetectedRow \<times> real \<times> real) option
     \<Rightarrow> Overlay \<Rightarrow> Overlay" where
  "add_ellipses args scale index row x_center y_center matched ov =
     (if draw_moments args
      then (let ov = ov \<lparr> ellipse_centers := (ellipse_centers ov)[index := Some (x_center, y_center)],
                           ellipse_widths := (ellipse_widths ov)[index := Some (row_a row / scale)],
                           ellipse_heights := (ellipse_heights ov)[index := Some (row_b row / scale)],
                           ellipse_angles := (ellipse_angles ov)[index := Some (degrees (row_beta row))] \<rparr>
            in case matched of
                 None \<Rightarrow> ov
               | Some (m, xm, ym) \<Rightarrow> add_match_ellipse m xm ym ov)
      else ov)"

text \<open>Lines 334-339.\<close>

definition add_crosshairs ::
  "Args \<Rightarrow> real \<Rightarrow> real \<Rightarrow> (DetectedRow \<times> real \<times> real) option \<Rightarrow> Overlay \<Rightarrow> Overlay" where
  "add_crosshairs args x_center y_center matched ov =
     (if \<not> no_crosshair args
      then ov \<lparr> directives := directives ov @ [Crosshair x_center y_center]
                   @ (case matched of None \<Rightarrow> [] | Some (m, xm, ym) \<Rightarrow> [MatchCrosshair xm ym]) \<rparr>
      else ov)"

text \<open>Lines 341-365: a format that names a missing field ends \<^verbatim>\<open>main\<close>.\<close>

definition add_annotations ::
  "Env \<Rightarrow> string option \<Rightarrow> string option \<Rightarrow> TableRow \<Rightarrow> real \<Rightarrow> real
     \<Rightarrow> (DetectedRow \<times> real \<times> real) option \<Rightarrow> Overlay \<Rightarrow> Overlay io" where
  "add_annotations env info_fmt match_fmt row x_center y_center matched ov =
     andthen
       (if truthy info_fmt
        then (case interpolate env (the info_fmt) row of
                None \<Rightarrow> ([InvalidAnnotateFormat (the info_fmt)], Return (-1))
              | Some annotation \<Rightarrow>
                  ([], Go (ov \<lparr> directives := directives ov
                                   @ [Annotation annotation x_center y_center] \<rparr>)))
        else ([], Go ov))
       (\<lambda>ov. case matched of
                None \<Rightarrow> ([], Go ov)
              | Some (m, xm, ym) \<Rightarrow>
                  if truthy match_fmt
                  then (case interpolate_match env (the match_fmt) m of
                          None \<Rightarrow> ([InvalidMatchFormat (the match_fmt)], Return (-1))
                        | Some annotation \<Rightarrow>
                            ([], Go (ov \<lparr> directives := directives ov
                                             @ [MatchAnnotation annotation xm ym] \<rparr>)))
                  else ([], Go ov))"

text \<open>Lines 322-381: the body of the loop for one selected object.\<close>

definition annotate_object ::
  "Env \<Rightarrow> Args \<Rightarrow> Survey \<Rightarrow> DetectedRow list \<Rightarrow> string option \<Rightarrow> string option
     \<Rightarrow> nat \<Rightarrow> TableRow \<Rightarrow> Overlay \<Rightarrow> Overlay io" where
  "annotate_object env args sv detected info_fmt match_fmt index row ov =
     (case match_row args detected row of
        Inl e \<Rightarrow> ([], Raise e)
      | Inr match_inf \<Rightarrow>
          (let scale = pixel_scale sv;
               x_center = 0.5 * real_of_int (image_width sv) + row_dx row / scale;
               y_center = 0.5 * real_of_int (image_height sv) + row_dy row / scale
           in case match_center match_inf of
                Inl e \<Rightarrow> ([], Raise e)
              | Inr matched \<Rightarrow>
                  andthen
                    (add_annotations env info_fmt match_fmt row x_center y_center matched
                       (add_crosshairs args x_center y_center matched ov))
                    (\<lambda>ov. ([], Go (add_ellipses args scale index row x_center y_center
                                      matched ov)))))"

text \<open>Line 321: the loop, over the pairs of \<^verbatim>\<open>enumerate(selected_indices)\<close>.\<close>

fun annotate_loop ::
  "(nat \<Rightarrow> TableRow \<Rightarrow> Overlay \<Rightarrow> Overlay io) \<Rightarrow> TableRow list \<Rightarrow> (nat \<times> nat) list
     \<Rightarrow> Overlay \<Rightarrow> Overlay io" where
  "annotate_loop body tbl [] ov = ([], Go ov)"
| "annotate_loop body tbl ((index, selected) # rest) ov =
     andthen (body index (tbl ! selected) ov) (annotate_loop body tbl rest)"

text \<open>
  Entry \<open>i\<close> of the four arrays handed to the ellipse collection of the selected objects
  (offset, width, height, angle), and the size of these arrays.
\<close>

definition ellipse_at ::
  "Overlay \<Rightarrow> nat \<Rightarrow> (real \<times> real) option \<times> real option \<times> real option \<times> real option" where
  "ellipse_at ov i =
     (ellipse_centers ov ! i, ellipse_widths ov ! i, ellipse_heights ov ! i, ellipse_angles ov ! i)"

definition ellipse_arrays_sized :: "Overlay \<Rightarrow> nat \<Rightarrow> bool" where
  "ellipse_arrays_sized ov n =
     (length (ellipse_centers ov) = n \<and> length (ellipse_widths ov) = n
      \<and> length (ellipse_heights ov) = n \<and> length (ellipse_angles ov) = n)"

text \<open>A row of the detection catalog without one of the three shape fields.\<close>

definition lacks_shape :: "DetectedRow \<Rightarrow> bool" where
  "lacks_shape m =
     (field m ''A_IMAGE'' = Inl IndexError \<or> field m ''B_IMAGE'' = Inl IndexError
      \<or> field m ''THETA_IMAGE'' = Inl IndexError)"

section \<open>The whole of main\<close>

type_synonym ellipse_collection =
  "(real \<times> real) option list \<times> real option list \<times> real option list \<times> real option list"

text \<open>
  What \<^verbatim>\<open>main\<close> hands to matplotlib: the axes limits, the composite image and its
  extent, the markers and texts, the ellipse collections (offsets, widths, heights,
  angles), the file to save and whether the window is shown.
\<close>

record Figure =
  axes_limits :: "real \<times> real \<times> real \<times> real"
  final_rgb :: "rgb list list"
  extent :: "int \<times> int \<times> int \<times> int"
  drawn :: "directive list"
  ellipses :: "ellipse_collection option"
  match_ellipses :: "ellipse_collection option"
  saved_as :: "string option"
  displayed :: bool

text \<open>Lines 139-141.\<close>

definition load_matches :: "Env \<Rightarrow> Args \<Rightarrow> Results \<Rightarrow> (DetectedRow list \<times> Results) io" where
  "load_matches env args results =
     (if truthy (match_catalog args)
      then (case match_sextractor env results (the (match_catalog args)) of
              Inl e \<Rightarrow> ([], Raise e)
            | Inr r \<Rightarrow> ([], Go r))
      else ([], Go ([], results)))"

text \<open>Lines 300-302 and 383-405.\<close>

definition draw :: "Args \<Rightarrow> real \<times> real \<times> real \<times> real \<Rightarrow> BoundsI \<Rightarrow> rgb list list \<Rightarrow> Overlay \<Rightarrow> Figure" where
  "draw args v view_bounds rgb_image ov =
     \<lparr> axes_limits = v,
       final_rgb = rgb_image,
       extent = (bxmin view_bounds, bxmax view_bounds + 1, bymin view_bounds, bymax view_bounds + 1),
       drawn = directives ov,
       ellipses =
         (if draw_moments args
          then Some (ellipse_centers ov, ellipse_widths ov, ellipse_heights ov, ellipse_angles ov)
          else None),
       match_ellipses =
         (if draw_moments args \<and> num_match_ellipses ov > 0
          then Some (match_ellipse_centers ov, match_ellipse_widths ov,
                     match_ellipse_heights ov, match_ellipse_angles ov)
          else None),
       saved_as = (if truthy (output_name args) then output_name args else None),
       displayed = (\<not> no_display args) \<rparr>"

text \<open>
  What lines 117-251 leave for the rest of \<^verbatim>\<open>main\<close>: the results, the detection catalog,
  the selected rows and their image, the viewing window with its integer bounds, and the
  two buffers.
\<close>

record View =
  v_results :: Results
  v_detected :: "DetectedRow list"
  v_indices :: "nat list"
  v_selected_image :: "Image option"
  v_limits :: "real \<times> real \<times> real \<times> real"
  v_bounds :: BoundsI
  v_background :: Image
  v_highlighted :: Image

text \<open>Lines 135-136: noise is added whenever a seed is given, the seed 0 included.\<close>

definition apply_noise :: "Env \<Rightarrow> Args \<Rightarrow> Results \<Rightarrow> Results" where
  "apply_noise env args loaded =
     (case add_noise args of
        None \<Rightarrow> loaded
      | Some seed \<Rightarrow> add_noise_op env loaded seed)"

text \<open>Lines 117-251.\<close>

definition prepare :: "Env \<Rightarrow> Args \<Rightarrow> View io" where
  "prepare env args =
     (if no_display args \<and> \<not> truthy (output_name args) then ([NoDisplayOrOutput], Return 0)
      else if hide_background args \<and> hide_selected args then ([NoPixelsVisible], Return 0)
      else (case from_args env args of
              Inl e \<Rightarrow> ([LoadError e], Return (-1))
            | Inr loaded \<Rightarrow>
         (let results = apply_noise env args loaded
          in
          andthen (load_matches env args results) (\<lambda>(detected, results).
          andthen (expand_select_region env args) (\<lambda>cuts.
          andthen (perform_selection env results args cuts) (\<lambda>selection.
          andthen (check_stamps results selection) (\<lambda>u.
          (let indices = selected_indices results selection;
               selected_image = get_subimage env results indices;
               sv = survey results
           in
          andthen (resolve_view env args sv selected_image) (\<lambda>(v, view_bounds).
          andthen (check_view_size args v) (\<lambda>u.
          andthen (make_figure env args v) (\<lambda>u.
          (case view_buffers args sv selected_image view_bounds of
             (background, highlighted) \<Rightarrow>
               ([], Go \<lparr> v_results = results, v_detected = detected, v_indices = indices,
                         v_selected_image = selected_image, v_limits = v,
                         v_bounds = view_bounds, v_background = background,
                         v_highlighted = highlighted \<rparr>)))))))))))))"

text \<open>Lines 257-405.\<close>

definition finish :: "Env \<Rightarrow> Args \<Rightarrow> View \<Rightarrow> Figure io" where
  "finish env args view =
     (let sv = survey (v_results view)
      in
      andthen (zscale_bounds env args sv (v_selected_image view)) (\<lambda>(vmin, vmax).
      (case scaled_layers args sv (v_background view) (v_highlighted view) vmin vmax of
         (highlighted_z, background_z) \<Rightarrow>
      (let background_rgb = map (map (get_cmap env (colormap args))) background_z
       in
      andthen (blend env args highlighted_z background_rgb) (\<lambda>rgb_image.
      andthen (unescape env (info args)) (\<lambda>info_fmt.
      andthen (unescape env (match_info args)) (\<lambda>match_fmt.
      andthen (annotate_loop
                 (annotate_object env args sv (v_detected view) info_fmt match_fmt)
                 (table (v_results view))
                 (zip [0 ..< length (v_indices view)] (v_indices view))
                 (empty_overlay (length (v_indices view)))) (\<lambda>ov.
      ([], Go (draw args (v_limits view) (v_bounds view) rgb_image ov))))))))))"

definition main :: "Env \<Rightarrow> Args \<Rightarrow> Figure io" where
  "main env args =
     andthen (prepare env args) (\<lambda>view.
     andthen (check_visible args (v_background view) (v_highlighted view)) (\<lambda>u.
     finish env args view))"

section \<open>The predicate evaluator\<close>

text \<open>
  Modelled from the spec: \<^verbatim>\<open>results.select\<close>, the predicate evaluator of \<^verbatim>\<open>descwl\<close>, whose
  code is not in \<^verbatim>\<open>display.py\<close>.  A cut is \<^verbatim>\<open><column><operator><value>\<close> with one of the
  operators \<^verbatim>\<open>==\<close>, \<^verbatim>\<open>!=\<close>, \<^verbatim>\<open>>=\<close>, \<^verbatim>\<open><=\<close>, \<^verbatim>\<open>>\<close>, \<^verbatim>\<open><\<close>, or the literal \<^verbatim>\<open>NONE\<close>
  (matches nothing), or \<^verbatim>\<open>ALL\<close> or the empty string (matches everything).  A column that
  is not in the table is an error.  The mode \<^verbatim>\<open>and\<close> requires every clause, the mode
  \<^verbatim>\<open>or\<close> any clause; \<^verbatim>\<open>NONE\<close> gives the all-false mask without evaluating the clauses.
\<close>

definition column_value :: "string \<Rightarrow> (TableRow \<Rightarrow> real) option" where
  "column_value c =
     (if c = ''db_id'' then Some (\<lambda>r. real_of_int (row_db_id r))
      else if c = ''grp_id'' then Some (\<lambda>r. real_of_int (row_grp_id r))
      else if c = ''dx'' then Some row_dx
      else if c = ''dy'' then Some row_dy
      else if c = ''a'' then Some row_a
      else if c = ''b'' then Some row_b
      else if c = ''beta'' then Some row_beta
      else if c = ''match'' then Some (\<lambda>r. real_of_int (row_match r))
      else None)"

text \<open>Modelled from the spec: the six comparison operators of a cut of \<^verbatim>\<open>results.select\<close>.\<close>

definition comparison :: "string \<Rightarrow> (real \<Rightarrow> real \<Rightarrow> bool) option" where
  "comparison opr =
     (if opr = ''=='' then Some (\<lambda>u v. u = v)
      else if opr = ''!='' then Some (\<lambda>u v. u \<noteq> v)
      else if opr = ''>='' then Some (\<lambda>u v. u \<ge> v)
      else if opr = ''<='' then Some (\<lambda>u v. u \<le> v)
      else if opr = ''>'' then Some (\<lambda>u v. u > v)
      else if opr = ''<'' then Some (\<lambda>u v. u < v)
      else None)"

text \<open>Modelled from the spec: the characters that make up the operator of a cut.\<close>

definition is_op_char :: "char \<Rightarrow> bool" where
  "is_op_char c = (c \<in> set ''=!<>'')"

text \<open>Modelled from the spec: one cut of \<^verbatim>\<open>results.select\<close> as a predicate on table rows,
  the value read as a float; \<open>None\<close> is the error for an unknown column or a malformed
  cut.\<close>

definition cut_predicate :: "string \<Rightarrow> (TableRow \<Rightarrow> bool) option" where
  "cut_predicate expr =
     (if expr = ''ALL'' \<or> expr = [] then Some (\<lambda>r. True)
      else (let column = takeWhile (\<lambda>c. \<not> is_op_char c) expr;
                rest = dropWhile (\<lambda>c. \<not> is_op_char c) expr;
                opr = takeWhile is_op_char rest;
                literal = dropWhile is_op_char rest
            in case column_value column of
                 None \<Rightarrow> None
               | Some f \<Rightarrow>
                   (case comparison opr of
                      None \<Rightarrow> None
                    | Some cmp \<Rightarrow>
                        (case float_literal literal of
                           None \<Rightarrow> None
                         | Some x \<Rightarrow>
                             if is_finite x then Some (\<lambda>r. cmp (f r) (val x)) else None))))"

text \<open>Modelled from the spec: \<^verbatim>\<open>results.select(*selectors, mode, format='mask')\<close>.\<close>

definition select_spec :: "Results \<Rightarrow> string list \<Rightarrow> string \<Rightarrow> py_error + bool list" where
  "select_spec results selectors mode =
     (if ''NONE'' \<in> set selectors then Inr (map (\<lambda>r. False) (table results))
      else (case those (map cut_predicate selectors) of
              None \<Rightarrow> Inl InvalidSelectionError
            | Some preds \<Rightarrow>
                Inr (map (\<lambda>r. if mode = ''or'' then list_ex (\<lambda>p. p r) preds
                               else list_all (\<lambda>p. p r) preds)
                       (table results))))"

section \<open>A small survey for the examples\<close>

text \<open>
  A 4 by 4 image, three table rows and simple stand-ins for the external collaborators,
  at which the theorems below are instantiated.
\<close>

definition example_image :: Image where
  "example_image =
     \<lparr> bounds = \<lparr> bxmin = 0, bxmax = 3, bymin = 0, bymax = 3 \<rparr>,
       pix = (\<lambda>x y. real_of_int (x + y)) \<rparr>"

definition example_survey :: Survey where
  "example_survey =
     \<lparr> pixel_scale = 0.2, image_width = 4, image_height = 4, mean_sky_level = 100,
       image = example_image \<rparr>"

definition example_table :: "TableRow list" where
  "example_table =
     [\<lparr> row_db_id = 1, row_grp_id = 10, row_dx = 0.1234567, row_dy = 0.5, row_a = 1,
        row_b = 0.5, row_beta = 0, row_match = 0 \<rparr>,
      \<lparr> row_db_id = 2, row_grp_id = 10, row_dx = 0.2, row_dy = 0.2, row_a = 0.4,
        row_b = 0.2, row_beta = 1, row_match = -1 \<rparr>,
      \<lparr> row_db_id = 3, row_grp_id = 20, row_dx = -0.2, row_dy = 0, row_a = 0.6,
        row_b = 0.6, row_beta = 0, row_match = -1 \<rparr>]"

definition example_results :: Results where
  "example_results = \<lparr> survey = example_survey, table = example_table, stamps = True \<rparr>"

definition example_stamp :: Image where
  "example_stamp =
     \<lparr> bounds = \<lparr> bxmin = 1, bxmax = 2, bymin = 1, bymax = 1 \<rparr>, pix = (\<lambda>x y. 7) \<rparr>"

text \<open>\<^verbatim>\<open>numpy.percentile\<close> with linear interpolation, on data that is not empty.\<close>

definition linear_percentile :: "real list \<Rightarrow> real \<Rightarrow> real" where
  "linear_percentile xs q =
     (if xs = [] then 0
      else (let s = sort xs; k = q / 100 * real (length s - 1); f = nat \<lfloor>k\<rfloor>; c = nat \<lceil>k\<rceil>
            in s ! f + (s ! c - s ! f) * (k - real f)))"

text \<open>A selector that knows the cut for the group 10 and selects nothing otherwise.\<close>

definition example_select :: "Results \<Rightarrow> string list \<Rightarrow> string \<Rightarrow> py_error + bool list" where
  "example_select results selectors mode =
     (if selectors = [''grp_id==10''] then Inr (map (\<lambda>r. row_grp_id r = 10) (table results))
      else Inr (map (\<lambda>r. False) (table results)))"

definition example_env :: Env where
  "example_env =
     \<lparr> py_float = float_literal,
       string_escape = Some,
       interpolate = (\<lambda>fmt row. Some fmt),
       interpolate_match = (\<lambda>fmt row. Some fmt),
       from_args = (\<lambda>args. Inr example_results),
       add_noise_op = (\<lambda>results seed. results),
       match_sextractor = (\<lambda>results name. Inr ([[(''X_IMAGE'', 2.5), (''Y_IMAGE'', 2.5)]], results)),
       select_op = example_select,
       get_subimage = (\<lambda>results indices. if indices = [] then None else Some (image (survey results))),
       percentile = linear_percentile,
       get_cmap = (\<lambda>name z. (z, z, z)),
       to_rgb = (\<lambda>name. if name = ''red'' then Some (1, 0, 0) else None),
       new_figure = (\<lambda>width height d. None) \<rparr>"

text \<open>
  Two rows whose \<open>dx\<close> are the floats read from \<^verbatim>\<open>0.1234567\<close> and \<^verbatim>\<open>0.2\<close>, and the example
  collaborators with the predicate evaluator as their selector.
\<close>

definition region_results :: Results where
  "region_results =
     \<lparr> survey = example_survey,
       table =
         [\<lparr> row_db_id = 1, row_grp_id = 10, row_dx = val (binary64 0.1234567), row_dy = 0.5,
            row_a = 1, row_b = 0.5, row_beta = 0, row_match = -1 \<rparr>,
          \<lparr> row_db_id = 2, row_grp_id = 10, row_dx = val (binary64 0.2), row_dy = 0.25,
            row_a = 1, row_b = 0.5, row_beta = 0, row_match = -1 \<rparr>],
       stamps = True \<rparr>"

definition region_env :: Env where
  "region_env = example_env \<lparr> select_op := select_spec \<rparr>"

section \<open>Verified properties\<close>

subsection \<open>Evaluating binary64\<close>

lemma pow2_powr: "pow2 e = 2 powr real_of_int e"
proof (cases "0 \<le> e")
  case True
  then have "2 powr real_of_int e = 2 powr real (nat e)" by simp
  also have "\<dots> = 2 ^ nat e" by (simp add: powr_realpow)
  finally show ?thesis using True by (simp add: pow2_def)
next
  case False
  then have "2 powr real_of_int e = 2 powr (- real (nat (- e)))" by simp
  also have "\<dots> = 1 / 2 ^ nat (- e)" by (simp add: powr_minus powr_realpow divide_inverse)
  finally show ?thesis using False by (simp add: pow2_def)
qed

lemma pow2_pos: "0 < pow2 e"
  by (simp add: pow2_powr)

lemma exponent64_eq:
  assumes "pow2 e \<le> \<bar>x\<bar>" and "\<bar>x\<bar> < pow2 (e + 1)" and "- 1022 \<le> e"
  shows "exponent64 x = e"
proof -
  have pos: "0 < \<bar>x\<bar>" using assms(1) pow2_pos [of e] by linarith
  have lo: "real_of_int e \<le> log 2 \<bar>x\<bar>"
    using assms(1) pos by (simp add: le_log_iff pow2_powr)
  have hi: "log 2 \<bar>x\<bar> < real_of_int e + 1"
    using assms(2) pos by (simp add: log_less_iff pow2_powr)
  have "\<lfloor>log 2 \<bar>x\<bar>\<rfloor> = e"
    using lo hi by (simp add: floor_eq_iff)
  then show ?thesis using assms(3) by (simp add: exponent64_def)
qed

lemma binary64_eval:
  assumes "pow2 e \<le> \<bar>x\<bar>" and "\<bar>x\<bar> < pow2 (e + 1)" and "- 1022 \<le> e"
  shows "binary64 x =
     (let u = pow2 (e - 52); y = real_of_int (round_half_even (x / u)) * u
      in if pow2 1024 \<le> \<bar>y\<bar> then Infinity (x < 0)
         else if y = 0 \<and> x < 0 then NegZero
         else Num y)"
proof -
  have "x \<noteq> 0" using assms(1) pow2_pos [of e] by auto
  then show ?thesis
    by (simp add: binary64_def exponent64_eq [OF assms])
qed

lemma val_simps: "val (Num v) = v" "val NegZero = 0"
  by (simp_all add: val_def)

lemma round_half_even_near:
  assumes "\<bar>y - real_of_int k\<bar> < 1 / 2"
  shows "round_half_even y = k"
proof (cases "real_of_int k \<le> y")
  case True
  with assms have f: "\<lfloor>y\<rfloor> = k" by (auto simp: floor_eq_iff abs_less_iff)
  with True assms show ?thesis by (simp add: round_half_even_def Let_def abs_less_iff)
next
  case False
  with assms have f: "\<lfloor>y\<rfloor> = k - 1" by (auto simp: floor_eq_iff abs_less_iff)
  with False assms show ?thesis by (simp add: round_half_even_def Let_def abs_less_iff)
qed

lemma binary64_round:
  assumes "pow2 e \<le> \<bar>x\<bar>" and "\<bar>x\<bar> < pow2 (e + 1)" and "- 1022 \<le> e"
    and "\<bar>x / pow2 (e - 52) - real_of_int k\<bar> < 1 / 2"
    and "\<bar>real_of_int k * pow2 (e - 52)\<bar> < pow2 1024" and "k \<noteq> 0"
  shows "binary64 x = Num (real_of_int k * pow2 (e - 52))"
proof -
  have r: "round_half_even (x / pow2 (e - 52)) = k"
    by (rule round_half_even_near [OF assms(4)])
  have nz: "real_of_int k * pow2 (e - 52) \<noteq> 0"
    using assms(6) pow2_pos [of "e - 52"] by simp
  show ?thesis
    unfolding binary64_eval [OF assms(1-3)] Let_def r
    using assms(5) nz by simp
qed


lemma b64_fifth: "binary64 0.2 = Num (3602879701896397 / 18014398509481984)"
  using binary64_round [of "-3" "0.2" 7205759403792794] by (simp add: pow2_def)



lemma b64_int:
  "binary64 5 = Num 5" "binary64 (- 5) = Num (- 5)" "binary64 100 = Num 100"
  "binary64 25 = Num 25" "binary64 (- 25) = Num (- 25)" "binary64 75 = Num 75"
  "binary64 1 = Num 1" "binary64 50 = Num 50" "binary64 53 = Num 53" "binary64 60 = Num 60"
  using binary64_round [of 2 5 "5 * 2 ^ 50"] binary64_round [of 2 "- 5" "- 5 * 2 ^ 50"]
    binary64_round [of 6 100 "100 * 2 ^ 46"]
    binary64_round [of 4 25 "25 * 2 ^ 48"] binary64_round [of 4 "- 25" "- 25 * 2 ^ 48"]
    binary64_round [of 6 75 "75 * 2 ^ 46"]
    binary64_round [of 0 1 "2 ^ 52"] binary64_round [of 5 50 "50 * 2 ^ 47"]
    binary64_round [of 5 53 "53 * 2 ^ 47"] binary64_round [of 5 60 "60 * 2 ^ 47"]
  by (simp_all add: pow2_def)

lemma float_literal_5: "float_literal ''5'' = Some (Num 5)" "float_literal ''-5'' = Some (Num (- 5))"
  by (simp_all add: float_literal_def unsigned_literal_def digit_val_def b64_int)

lemma half_100: "half_dimension 100 = Inr 50"
  by (simp add: half_dimension_def b64_int)

subsection \<open>Viewport\<close>







text \<open>
  C2 (as stated).  For the region string \<^verbatim>\<open>[-5,5,-5,5]\<close>, pixel scale 0.2 and a 100 by 100
  image the claim gives the pixel window 225.0 to 275.0 and the integer bounds 225 to 274
  on each axis.  The program does not compute these values.
\<close>

theorem view_region_scenario_counterexample:
  "resolve_view_region float_literal 0.2 100 100 ''[-5,5,-5,5]''
     \<noteq> Inr ((225, 275, 225, 275), \<lparr> bxmin = 225, bxmax = 274, bymin = 225, bymax = 274 \<rparr>)"
proof -
  have p: "parse_region float_literal ''[-5,5,-5,5]'' = Inr (Num (- 5), Num 5, Num (- 5), Num 5)"
    by (simp add: parse_region_def py_less_def val_simps float_literal_5)
  have a: "to_pixels 0.2 100 (Num (- 5)) = Inr (Num 25)" "to_pixels 0.2 100 (Num 5) = Inr (Num 75)"
    by (simp_all add: to_pixels_def and_then_def half_100 fdiv_def fadd_def b64_int)
  have c: "cover_bounds (Num 25, Num 75, Num 25, Num 75)
             = Inr \<lparr> bxmin = 25, bxmax = 74, bymin = 25, bymax = 74 \<rparr>"
    by (simp add: cover_bounds_def and_then_def int_floor_def int_ceil_def)
  have "resolve_view_region float_literal 0.2 100 100 ''[-5,5,-5,5]''
     = Inr ((25, 75, 25, 75), \<lparr> bxmin = 25, bxmax = 74, bymin = 25, bymax = 74 \<rparr>)"
    by (simp only: resolve_view_region_def convert_view_region_def view_region_pixels_def p
        and_then_def sum.case prod.case a c val_simps)
  then show ?thesis by simp
qed

text \<open>
  C2 (amended).  For the region string \<^verbatim>\<open>[-5,5,-5,5]\<close>, pixel scale 0.2 and a 100 by 100
  image, the pixel window before floor and ceiling is 25.0 to 75.0 on each axis and the
  integer bounds are 25 to 74 inclusive on each axis (\<open>-5/0.2 + 50 = 25\<close>).  This holds
  for the real number 0.2 as the pixel scale and for the binary64 number nearest to it,
  which is what \<^verbatim>\<open>float('0.2')\<close> denotes.
\<close>

theorem view_region_scenario:
  assumes "float ''-5'' = Some (Num (- 5))" and "float ''5'' = Some (Num 5)"
  shows "resolve_view_region float 0.2 100 100 ''[-5,5,-5,5]''
           = Inr ((25, 75, 25, 75), \<lparr> bxmin = 25, bxmax = 74, bymin = 25, bymax = 74 \<rparr>)
       \<and> resolve_view_region float (val (binary64 0.2)) 100 100 ''[-5,5,-5,5]''
           = Inr ((25, 75, 25, 75), \<lparr> bxmin = 25, bxmax = 74, bymin = 25, bymax = 74 \<rparr>)"
proof -
  have p: "parse_region float ''[-5,5,-5,5]'' = Inr (Num (- 5), Num 5, Num (- 5), Num 5)"
    using assms by (simp add: parse_region_def py_less_def val_def)
  have a: "to_pixels 0.2 100 (Num (- 5)) = Inr (Num 25)" "to_pixels 0.2 100 (Num 5) = Inr (Num 75)"
    by (simp_all add: to_pixels_def and_then_def half_100 fdiv_def fadd_def b64_int)
  have d1: "binary64 (- 5 / (3602879701896397 / 18014398509481984)) = Num (- 25)"
    using binary64_round [of 4 "- 5 / (3602879701896397 / 18014398509481984)" "- 25 * 2 ^ 48"]
    by (simp add: pow2_def)
  have d2: "binary64 (5 / (3602879701896397 / 18014398509481984)) = Num 25"
    using binary64_round [of 4 "5 / (3602879701896397 / 18014398509481984)" "25 * 2 ^ 48"]
    by (simp add: pow2_def)
  have b: "to_pixels (val (binary64 0.2)) 100 (Num (- 5)) = Inr (Num 25)"
    "to_pixels (val (binary64 0.2)) 100 (Num 5) = Inr (Num 75)"
    unfolding b64_fifth val_simps to_pixels_def fdiv_def fadd_def
    using d1 d2 by (simp_all add: and_then_def half_100 b64_int)
  have c: "cover_bounds (Num 25, Num 75, Num 25, Num 75)
             = Inr \<lparr> bxmin = 25, bxmax = 74, bymin = 25, bymax = 74 \<rparr>"
    by (simp add: cover_bounds_def and_then_def int_floor_def int_ceil_def)
  show ?thesis
    by (simp only: resolve_view_region_def convert_view_region_def view_region_pixels_def p
        and_then_def sum.case prod.case a b c val_simps simp_thms)
qed

theorem view_region_scenario_witness:
  "float_literal ''-5'' = Some (Num (- 5)) \<and> float_literal ''5'' = Some (Num 5) \<and>
   resolve_view_region float_literal 0.2 100 100 ''[-5,5,-5,5]''
     = Inr ((25, 75, 25, 75), \<lparr> bxmin = 25, bxmax = 74, bymin = 25, bymax = 74 \<rparr>) \<and>
   resolve_view_region float_literal (val (binary64 0.2)) 100 100 ''[-5,5,-5,5]''
     = Inr ((25, 75, 25, 75), \<lparr> bxmin = 25, bxmax = 74, bymin = 25, bymax = 74 \<rparr>)"
  using float_literal_5 view_region_scenario [OF float_literal_5(2) float_literal_5(1)]
  by simp

subsection \<open>Scaling and blending\<close>






text \<open>
  C5 (the program at the seed 0).  With \<^verbatim>\<open>--add-noise 0\<close> noise is added to the data with the
  seed 0, but the low clipping bound of the background layer stays the one of the
  highlighted layer, \<open>clip_lo_noise_fraction * sqrt mean_sky_level\<close>: the noise multiple
  \<open>clip_noise\<close> is not used.
\<close>

theorem seed_zero_keeps_low_clip:
  "apply_noise env (args \<lparr> add_noise := Some 0 \<rparr>) loaded = add_noise_op env loaded 0
   \<and> background_vmin (args \<lparr> add_noise := Some 0 \<rparr>) sv vmin = vmin
   \<and> snd (scaled_layers (args \<lparr> add_noise := Some 0 \<rparr>) sv background highlighted vmin vmax)
       = zscale (clip_normalize (array background) vmin vmax)"
  by (simp add: apply_noise_def background_vmin_def scaled_layers_def Let_def)

text \<open>For every other seed the background layer is clipped at the noise multiple.\<close>

lemma nonzero_seed_low_clip:
  "seed \<noteq> 0 \<Longrightarrow>
   background_vmin (args \<lparr> add_noise := Some seed \<rparr>) sv vmin
     = clip_noise args * sqrt (mean_sky_level sv)"
  by (simp add: background_vmin_def)

text \<open>
  C7.  With a highlight colour configured (a name other than the empty string and
  \<^verbatim>\<open>none\<close>, converted to the triple \<open>(cr, cg, cb)\<close>), every pixel of the final image is
  \<open>alpha * colour + background * (1 - alpha)\<close> in each channel, where \<open>alpha\<close> is the
  pixel of \<open>highlighted_z\<close>; without a highlight colour the final image is
  \<open>background_rgb\<close> unchanged; and red over \<open>(0.2, 0.2, 0.2)\<close> at \<open>alpha = 0.5\<close> gives
  \<open>(0.6, 0.1, 0.1)\<close>.
\<close>

theorem alpha_blend:
  "(highlight args \<noteq> [] \<and> highlight args \<noteq> ''none'' \<and> to_rgb env (highlight args) = Some (cr, cg, cb)
      \<longrightarrow> blend env args highlighted_z background_rgb
            = ([], Go (map2 (map2 (\<lambda>alpha (br, bg, bb).
                                     (alpha * cr + br * (1 - alpha),
                                      alpha * cg + bg * (1 - alpha),
                                      alpha * cb + bb * (1 - alpha))))
                         highlighted_z background_rgb)))
   \<and> (highlight args = [] \<or> highlight args = ''none''
      \<longrightarrow> blend env args highlighted_z background_rgb = ([], Go background_rgb))
   \<and> blend_pixel 0.5 (1, 0, 0) (0.2, 0.2, 0.2) = (0.6, 0.1, 0.1)"
proof -
  have p: "blend_pixel alpha (cr, cg, cb) = (\<lambda>(br, bg, bb).
             (alpha * cr + br * (1 - alpha), alpha * cg + bg * (1 - alpha),
              alpha * cb + bb * (1 - alpha)))" for alpha
    by (auto simp: blend_pixel_def fun_eq_iff)
  show ?thesis
    by (auto simp: blend_def p blend_pixel_def)
qed

theorem alpha_blend_witness:
  "highlight default_args \<noteq> [] \<and> highlight default_args \<noteq> ''none''
   \<and> to_rgb example_env (highlight default_args) = Some (1, 0, 0)
   \<and> blend example_env default_args [[0.5]] [[(0.2, 0.2, 0.2)]] = ([], Go [[(0.6, 0.1, 0.1)]])
   \<and> highlight (default_args \<lparr> highlight := ''none'' \<rparr>) = ''none''
   \<and> blend example_env (default_args \<lparr> highlight := ''none'' \<rparr>) [[0.5]] [[(0.2, 0.2, 0.2)]]
       = ([], Go [[(0.2, 0.2, 0.2)]])"
proof -
  have a: "highlight default_args \<noteq> [] \<and> highlight default_args \<noteq> ''none''
           \<and> to_rgb example_env (highlight default_args) = Some (1, 0, 0)"
    by (simp add: default_args_def example_env_def)
  have b: "highlight (default_args \<lparr> highlight := ''none'' \<rparr>) = ''none''" by simp
  show ?thesis
    using a b
      alpha_blend [of default_args example_env 1 0 0 "[[0.5]]" "[[(0.2, 0.2, 0.2)]]"]
      alpha_blend [of "default_args \<lparr> highlight := ''none'' \<rparr>" example_env 1 0 0
                      "[[0.5]]" "[[(0.2, 0.2, 0.2)]]"]
    by simp
qed

subsection \<open>Selection by identifier\<close>

lemma logical_or_all_false:
  "length selected = length selection \<Longrightarrow> \<not> any_true selected
     \<Longrightarrow> logical_or selection selected = selection"
proof (induction selection arbitrary: selected)
  case Nil
  then show ?case by (simp add: logical_or_def)
next
  case (Cons s ss)
  then obtain t ts where sel: "selected = t # ts" by (cases selected) auto
  with Cons.prems have "\<not> t" and "\<not> any_true ts" and "length ts = length ss"
    by (auto simp: any_true_def)
  with Cons.IH [of ts] sel show ?case by (simp add: logical_or_def)
qed

text \<open>
  C9.  In the loop over the group identifiers and in the loop over the galaxy identifiers,
  an identifier whose cut matches no table row (the mask returned for it is all false)
  adds its warning to the output, does not stop the loop, and leaves the selection as it
  was: the loop goes on with the remaining identifiers from the same selection.
\<close>

theorem unmatched_identifier_warns:
  assumes "sel (column @ ''=='' @ fmt_d identifier) = Inr selected"
    and "\<not> any_true selected"
    and "length selected = length selection"
  shows "or_identifiers sel column warn (identifier # rest) selection
           = (warn identifier # fst (or_identifiers sel column warn rest selection),
              snd (or_identifiers sel column warn rest selection))
       \<and> or_identifiers sel column warn [identifier] selection = ([warn identifier], Go selection)"
  using assms logical_or_all_false [OF assms(3) assms(2)]
  by (simp add: andthen_def split: prod.splits)

theorem unmatched_identifier_warns_witness:
  "select_op example_env example_results [''grp_id'' @ ''=='' @ fmt_d 7] ''and''
     = Inr [False, False, False]
   \<and> \<not> any_true [False, False, False]
   \<and> length [False, False, False] = length [False, False, True]
   \<and> or_identifiers (\<lambda>c. select_op example_env example_results [c] ''and'')
        ''grp_id'' WarnNoGroup [7, 10] [False, False, True]
      = ([WarnNoGroup 7], Go [True, True, True])"
proof -
  have a: "select_op example_env example_results [''grp_id'' @ ''=='' @ fmt_d 7] ''and''
             = Inr [False, False, False]"
    by (simp add: fmt_d_def nat_digits.simps example_env_def example_select_def
        example_results_def example_table_def)
  have b: "\<not> any_true [False, False, False]" by (simp add: any_true_def)
  have c: "length [False, False, False] = length [False, False, True]" by simp
  have d: "or_identifiers (\<lambda>c. select_op example_env example_results [c] ''and'')
             ''grp_id'' WarnNoGroup [10] [False, False, True] = ([], Go [True, True, True])"
    by (simp add: fmt_d_def nat_digits.simps example_env_def example_select_def
        example_results_def example_table_def andthen_def any_true_def logical_or_def)
  show ?thesis
    using a b c
      unmatched_identifier_warns [of "\<lambda>c. select_op example_env example_results [c] ''and''"
        "''grp_id''" 7 "[False, False, False]" "[False, False, True]" WarnNoGroup "[10]"]
    by (simp only: d fst_conv snd_conv) simp
qed

subsection \<open>The empty view\<close>

text \<open>No step of \<^verbatim>\<open>main\<close> other than the check of lines 252-255 prints its message.\<close>

lemma andthen_notin:
  assumes "x \<notin> set (fst m)" and "\<And>y. x \<notin> set (fst (f y))"
  shows "x \<notin> set (fst (andthen m f))"
proof (cases m)
  case (Pair out s)
  show ?thesis
  proof (cases s)
    case (Go y)
    with Pair assms(1) assms(2) [of y] show ?thesis
      by (auto simp: andthen_def split: prod.splits)
  qed (use Pair assms(1) in \<open>simp_all add: andthen_def\<close>)
qed

lemma andthen_in:
  "x \<in> set (fst (andthen m f)) \<Longrightarrow> x \<in> set (fst m) \<or> (\<exists>y. x \<in> set (fst (f y)))"
  using andthen_notin [of x m f] by blast

lemma or_identifiers_quiet:
  "(\<And>i. warn i \<noteq> x) \<Longrightarrow> x \<notin> set (fst (or_identifiers sel column warn ids selection))"
proof (induction ids arbitrary: selection)
  case Nil
  then show ?case by simp
next
  case (Cons i ids)
  show ?case
  proof (cases "sel (column @ ''=='' @ fmt_d i)")
    case (Inl e)
    then show ?thesis by simp
  next
    case (Inr selected)
    have "x \<notin> set (fst (andthen (if \<not> any_true selected then [warn i] else [], Go (logical_or selection selected))
                     (or_identifiers sel column warn ids)))"
      using Cons.prems Cons.IH [OF Cons.prems] by (intro andthen_notin) auto
    with Inr show ?thesis by simp
  qed
qed

lemma perform_selection_quiet: "NoNonZeroPixels \<notin> set (fst (perform_selection env results args cuts))"
  unfolding perform_selection_def
  by (auto split: sum.splits dest!: andthen_in simp: or_identifiers_quiet)

lemma expand_select_region_quiet: "NoNonZeroPixels \<notin> set (fst (expand_select_region env args))"
  by (auto simp: expand_select_region_def split: option.splits sum.splits)

lemma load_matches_quiet: "NoNonZeroPixels \<notin> set (fst (load_matches env args results))"
  by (auto simp: load_matches_def split: sum.splits)

lemma check_stamps_quiet: "NoNonZeroPixels \<notin> set (fst (check_stamps results selection))"
  by (auto simp: check_stamps_def)

lemma resolve_view_quiet: "NoNonZeroPixels \<notin> set (fst (resolve_view env args sv selected_image))"
  by (auto simp: resolve_view_def split: option.splits sum.splits)

lemma check_view_size_quiet: "NoNonZeroPixels \<notin> set (fst (check_view_size args v))"
  by (auto simp: check_view_size_def Let_def split: prod.splits)

lemma make_figure_quiet: "NoNonZeroPixels \<notin> set (fst (make_figure env args v))"
  by (auto simp: make_figure_def Let_def split: prod.splits option.splits)

lemma prepare_quiet: "NoNonZeroPixels \<notin> set (fst (prepare env args))"
  unfolding prepare_def Let_def
  by (auto split: sum.splits prod.splits
      dest!: andthen_in
      simp: load_matches_quiet expand_select_region_quiet perform_selection_quiet
        check_stamps_quiet resolve_view_quiet check_view_size_quiet make_figure_quiet)

lemma zscale_bounds_quiet: "NoNonZeroPixels \<notin> set (fst (zscale_bounds env args sv selected_image))"
  by (auto simp: zscale_bounds_def andthen_def Let_def split: option.splits)

lemma blend_quiet: "NoNonZeroPixels \<notin> set (fst (blend env args hz rgb_image))"
  by (auto simp: blend_def split: option.splits)

lemma unescape_quiet: "NoNonZeroPixels \<notin> set (fst (unescape env fmt))"
  by (auto simp: unescape_def split: option.splits)

lemma add_annotations_quiet:
  "NoNonZeroPixels \<notin> set (fst (add_annotations env info_fmt match_fmt row xc yc matched ov))"
  unfolding add_annotations_def
  by (auto dest!: andthen_in split: option.splits prod.splits if_splits)

lemma annotate_object_quiet:
  "NoNonZeroPixels \<notin> set (fst (annotate_object env args sv detected info_fmt match_fmt index row ov))"
  unfolding annotate_object_def Let_def
  by (auto dest!: andthen_in split: sum.splits simp: add_annotations_quiet)

lemma annotate_loop_quiet:
  "(\<And>i r ov. x \<notin> set (fst (body i r ov))) \<Longrightarrow> x \<notin> set (fst (annotate_loop body tbl ps ov))"
proof (induction ps arbitrary: ov)
  case Nil
  then show ?case by simp
next
  case (Cons p ps)
  obtain index selected where p: "p = (index, selected)" by (cases p)
  show ?case
    unfolding p annotate_loop.simps
    using Cons.prems Cons.IH [OF Cons.prems] by (intro andthen_notin) auto
qed

lemma finish_quiet: "NoNonZeroPixels \<notin> set (fst (finish env args view))"
  unfolding finish_def Let_def
  using annotate_loop_quiet [of NoNonZeroPixels, OF annotate_object_quiet]
  by (auto split: prod.splits
      dest!: andthen_in
      simp: zscale_bounds_quiet blend_quiet unescape_quiet)

lemma main_after_prepare:
  assumes "prepare env args = (out, Go view)"
  shows "main env args =
     (if count_nonzero (array (v_highlighted view)) = 0
         \<and> (hide_background args \<or> count_nonzero (array (v_background view)) = 0)
      then (out @ [NoNonZeroPixels], Return (-1))
      else (out @ fst (finish env args view), snd (finish env args view)))"
  using assms by (auto simp: main_def andthen_def check_visible_def split: prod.splits)

lemma main_prepare_stops:
  assumes "prepare env args = (out, r)" and "\<forall>view. r \<noteq> Go view"
  shows "main env args = (out, case r of Return n \<Rightarrow> Return n | Raise e \<Rightarrow> Raise e)"
  using assms by (cases r) (auto simp: main_def andthen_def)

lemma both_hidden:
  "hide_background args \<and> hide_selected args \<Longrightarrow>
   main env args = (if no_display args \<and> \<not> truthy (output_name args) then ([NoDisplayOrOutput], Return 0) else ([NoPixelsVisible], Return 0))"
  by (simp add: main_def prepare_def andthen_def)

text \<open>
  C3 (as stated).  The claim has \<^verbatim>\<open>main\<close> fail with the empty-view error when both
  \<^verbatim>\<open>--hide-background\<close> and \<^verbatim>\<open>--hide-selected\<close> are given.  With these two flags and
  the other options at their defaults the program stops on lines 120-122, with another
  message and the return value 0.
\<close>

theorem both_hidden_counterexample:
  "main example_env (default_args \<lparr> hide_background := True, hide_selected := True \<rparr>)
     = ([NoPixelsVisible], Return 0)"
  by (simp add: main_def prepare_def andthen_def default_args_def truthy_def)

text \<open>
  C3 (amended).  \<^verbatim>\<open>main\<close> prints the empty-view message exactly when lines 117-251 run
  through (no early return and no exception, the figure of lines 233-239 included) and
  leave a highlight buffer that is entirely zero while the background is hidden or its
  buffer is entirely zero as well; it then returns -1.  With both \<^verbatim>\<open>--hide-background\<close>
  and \<^verbatim>\<open>--hide-selected\<close> that check is never reached and nothing fails: when
  \<^verbatim>\<open>--no-display\<close> is given without an output name, line 117 comes first and \<^verbatim>\<open>main\<close>
  prints only the message of line 118 and returns 0; otherwise it prints only the message
  of line 121 and returns 0.
\<close>

theorem empty_view:
  "(NoNonZeroPixels \<in> set (fst (main env args))
      \<longleftrightarrow> (\<exists>out view. prepare env args = (out, Go view)
            \<and> count_nonzero (array (v_highlighted view)) = 0
            \<and> (hide_background args \<or> count_nonzero (array (v_background view)) = 0)))
   \<and> (NoNonZeroPixels \<in> set (fst (main env args)) \<longrightarrow> snd (main env args) = Return (-1))
   \<and> (hide_background args \<and> hide_selected args
        \<longrightarrow> main env args =
              (if no_display args \<and> \<not> truthy (output_name args)
               then ([NoDisplayOrOutput], Return 0)
               else ([NoPixelsVisible], Return 0)))"
proof -
  obtain out r where pr: "prepare env args = (out, r)" by (cases "prepare env args")
  have q: "NoNonZeroPixels \<notin> set out" using prepare_quiet [of env args] pr by simp
  have a: "(NoNonZeroPixels \<in> set (fst (main env args))
      \<longleftrightarrow> (\<exists>out view. prepare env args = (out, Go view)
            \<and> count_nonzero (array (v_highlighted view)) = 0
            \<and> (hide_background args \<or> count_nonzero (array (v_background view)) = 0)))
     \<and> (NoNonZeroPixels \<in> set (fst (main env args)) \<longrightarrow> snd (main env args) = Return (-1))"
  proof (cases "\<exists>view. r = Go view")
    case True
    then obtain view where r: "r = Go view" by blast
    show ?thesis
      using main_after_prepare [OF pr [unfolded r]] q finish_quiet [of env args view] pr r
      by (auto split: if_splits)
  next
    case False
    then have "main env args = (out, case r of Return n \<Rightarrow> Return n | Raise e \<Rightarrow> Raise e)"
      using main_prepare_stops [OF pr] by blast
    with q pr False show ?thesis by auto
  qed
  have b: "hide_background args \<and> hide_selected args
        \<longrightarrow> main env args =
              (if no_display args \<and> \<not> truthy (output_name args)
               then ([NoDisplayOrOutput], Return 0)
               else ([NoPixelsVisible], Return 0))"
    using both_hidden [of args env] by blast
  from a b show ?thesis by blast
qed

lemma blank_image: "count_nonzero (array (new_image b)) = 0"
  by (simp add: count_nonzero_def array_def new_image_def filter_empty_conv)

lemma main_background_hidden:
  "main example_env (default_args \<lparr> hide_background := True \<rparr>) = ([NoNonZeroPixels], Return (-1))"
  by (simp add: main_def prepare_def andthen_def default_args_def truthy_def example_env_def
      apply_noise_def load_matches_def expand_select_region_def perform_selection_def
      example_select_def check_stamps_def any_true_def selected_indices_def num_objects_def
      example_results_def example_table_def resolve_view_def check_view_size_def
      example_survey_def example_image_def view_buffers_def Let_def check_visible_def blank_image
      make_figure_def)

theorem empty_view_witness:
  "NoNonZeroPixels \<in> set (fst (main example_env (default_args \<lparr> hide_background := True \<rparr>)))
   \<and> snd (main example_env (default_args \<lparr> hide_background := True \<rparr>)) = Return (-1)
   \<and> (\<exists>out view. prepare example_env (default_args \<lparr> hide_background := True \<rparr>) = (out, Go view)
          \<and> count_nonzero (array (v_highlighted view)) = 0
          \<and> (hide_background (default_args \<lparr> hide_background := True \<rparr>)
               \<or> count_nonzero (array (v_background view)) = 0))
   \<and> hide_background (default_args \<lparr> hide_background := True, hide_selected := True \<rparr>)
   \<and> hide_selected (default_args \<lparr> hide_background := True, hide_selected := True \<rparr>)
   \<and> main example_env (default_args \<lparr> hide_background := True, hide_selected := True \<rparr>)
       = ([NoPixelsVisible], Return 0)
   \<and> hide_background (default_args \<lparr> hide_background := True, hide_selected := True,
                                     no_display := True \<rparr>)
   \<and> hide_selected (default_args \<lparr> hide_background := True, hide_selected := True,
                                   no_display := True \<rparr>)
   \<and> main example_env (default_args \<lparr> hide_background := True, hide_selected := True,
                                     no_display := True \<rparr>)
       = ([NoDisplayOrOutput], Return 0)"
proof -
  let ?one = "default_args \<lparr> hide_background := True \<rparr>"
  let ?two = "default_args \<lparr> hide_background := True, hide_selected := True \<rparr>"
  let ?three = "default_args \<lparr> hide_background := True, hide_selected := True, no_display := True \<rparr>"
  have m: "NoNonZeroPixels \<in> set (fst (main example_env ?one))"
    by (simp add: main_background_hidden)
  have h: "hide_background ?two \<and> hide_selected ?two" "hide_background ?three \<and> hide_selected ?three"
    by simp_all
  have d: "\<not> (no_display ?two \<and> \<not> truthy (output_name ?two))"
    "no_display ?three \<and> \<not> truthy (output_name ?three)"
    by (simp_all add: default_args_def truthy_def)
  from empty_view [of example_env ?one] m
  have a: "snd (main example_env ?one) = Return (-1)
     \<and> (\<exists>out view. prepare example_env ?one = (out, Go view)
          \<and> count_nonzero (array (v_highlighted view)) = 0
          \<and> (hide_background ?one \<or> count_nonzero (array (v_background view)) = 0))"
    by blast
  from empty_view [of example_env ?two] h(1) d(1)
  have b: "main example_env ?two = ([NoPixelsVisible], Return 0)"
    by presburger
  from empty_view [of example_env ?three] h(2) d(2)
  have c: "main example_env ?three = ([NoDisplayOrOutput], Return 0)"
    by presburger
  from m a h b c show ?thesis by blast
qed

subsection \<open>The upper clipping bound\<close>

lemma sqrt_100: "sqrt 100 = 10"
  by (rule real_sqrt_unique) simp_all

lemma example_array: "array example_image = [[0, 1, 2, 3], [1, 2, 3, 4], [2, 3, 4, 5], [3, 4, 5, 6]]"
  by (simp add: array_def example_image_def upto.simps)

text \<open>
  C8 (as stated).  The claim has a warning whenever the percentile is taken from the full
  survey image.  With nothing selected there is no selected image, the full image is
  used, and nothing is printed.
\<close>

theorem zscale_no_selection_counterexample:
  "zscale_bounds example_env default_args example_survey None
     = ([], Go (1, linear_percentile [1, 2, 3, 1, 2, 3, 4, 2, 3, 4, 5, 3, 4, 5, 6] 90))"
  by (simp add: zscale_bounds_def andthen_def Let_def default_args_def example_env_def
      example_survey_def sqrt_100 example_array)

text \<open>
  C8 (amended).  The upper clipping bound is the configured percentile (90 by default) of
  the non-zero pixels of the selected image when there is one and its bounds cover at
  least 16 pixels, without a warning; of the non-zero pixels of the full survey image,
  with a warning, when there is a selected image of fewer than 16 pixels; and of the
  non-zero pixels of the full survey image, without a warning, when nothing is selected.
\<close>

theorem zscale_vmax_source:
  "(selected_image = Some im \<and> 16 \<le> area (bounds im)
      \<longrightarrow> zscale_bounds env args sv selected_image
            = ([], Go (clip_lo_noise_fraction args * sqrt (mean_sky_level sv),
                       percentile env (filter (\<lambda>v. v \<noteq> 0) (concat (array im)))
                         (clip_hi_percentile args))))
   \<and> (selected_image = Some im \<and> area (bounds im) < 16
      \<longrightarrow> zscale_bounds env args sv selected_image
            = ([WarnFullImageZscale (area (bounds im))],
               Go (clip_lo_noise_fraction args * sqrt (mean_sky_level sv),
                   percentile env (filter (\<lambda>v. v \<noteq> 0) (concat (array (image sv))))
                     (clip_hi_percentile args))))
   \<and> (selected_image = None
      \<longrightarrow> zscale_bounds env args sv selected_image
            = ([], Go (clip_lo_noise_fraction args * sqrt (mean_sky_level sv),
                       percentile env (filter (\<lambda>v. v \<noteq> 0) (concat (array (image sv))))
                         (clip_hi_percentile args))))
   \<and> clip_hi_percentile default_args = 90"
  by (simp add: zscale_bounds_def andthen_def Let_def default_args_def)

theorem zscale_vmax_source_witness:
  "16 \<le> area (bounds example_image)
   \<and> zscale_bounds example_env default_args (example_survey \<lparr> image := example_stamp \<rparr>)
        (Some example_image)
      = ([], Go (1, linear_percentile [1, 2, 3, 1, 2, 3, 4, 2, 3, 4, 5, 3, 4, 5, 6] 90))
   \<and> area (bounds example_stamp) < 16
   \<and> zscale_bounds example_env default_args example_survey (Some example_stamp)
      = ([WarnFullImageZscale 2],
         Go (1, linear_percentile [1, 2, 3, 1, 2, 3, 4, 2, 3, 4, 5, 3, 4, 5, 6] 90))
   \<and> zscale_bounds example_env default_args (example_survey \<lparr> image := example_stamp \<rparr>) None
      = ([], Go (1, linear_percentile [7, 7] 90))"
proof -
  have a: "16 \<le> area (bounds example_image)"
    by (simp add: area_def isDefined_def example_image_def)
  have b: "area (bounds example_stamp) = 2"
    by (simp add: area_def isDefined_def example_stamp_def)
  have c: "array example_stamp = [[7, 7]]"
    by (simp add: array_def example_stamp_def upto.simps)
  have d: "clip_lo_noise_fraction default_args = 0.1" "clip_hi_percentile default_args = 90"
    by (simp_all add: default_args_def)
  have e: "percentile example_env = linear_percentile"
    by (simp add: example_env_def)
  have f: "mean_sky_level example_survey = 100" "image example_survey = example_image"
    by (simp_all add: example_survey_def)
  show ?thesis
    using a b
      zscale_vmax_source [of "Some example_image" example_image example_env default_args
        "example_survey \<lparr> image := example_stamp \<rparr>"]
      zscale_vmax_source [of "Some example_stamp" example_stamp example_env default_args
        example_survey]
      zscale_vmax_source [of None example_stamp example_env default_args
        "example_survey \<lparr> image := example_stamp \<rparr>"]
    by (simp add: c d e f example_array sqrt_100)
qed

subsection \<open>Ellipses\<close>

lemma andthen_Go:
  assumes "andthen m f = (out, Go z)"
  shows "\<exists>o1 y o2. m = (o1, Go y) \<and> f y = (o2, Go z) \<and> out = o1 @ o2"
proof (cases m)
  case (Pair o1 s)
  show ?thesis
  proof (cases s)
    case (Go y)
    with Pair assms show ?thesis
      by (auto simp: andthen_def split: prod.splits)
  qed (use Pair assms in \<open>simp_all add: andthen_def\<close>)
qed

lemma add_match_ellipse_arrays:
  "ellipse_at (add_match_ellipse m xm ym ov) j = ellipse_at ov j
   \<and> ellipse_arrays_sized (add_match_ellipse m xm ym ov) n = ellipse_arrays_sized ov n"
  by (simp add: add_match_ellipse_def ellipse_at_def ellipse_arrays_sized_def Let_def
      split: sum.splits)

lemma add_match_ellipse_lacks:
  "lacks_shape m \<Longrightarrow> num_match_ellipses (add_match_ellipse m xm ym ov) = num_match_ellipses ov"
  by (auto simp: add_match_ellipse_def lacks_shape_def Let_def split: sum.splits)

lemma add_ellipses_geometry:
  assumes "draw_moments args" and "ellipse_arrays_sized ov n" and "index < n"
  shows "ellipse_arrays_sized (add_ellipses args scale index row xc yc matched ov) n
       \<and> ellipse_at (add_ellipses args scale index row xc yc matched ov) index
           = (Some (xc, yc), Some (row_a row / scale), Some (row_b row / scale),
              Some (degrees (row_beta row)))
       \<and> (\<forall>j. j \<noteq> index \<longrightarrow>
            ellipse_at (add_ellipses args scale index row xc yc matched ov) j = ellipse_at ov j)"
proof (cases matched)
  case None
  with assms show ?thesis
    by (simp add: add_ellipses_def ellipse_at_def ellipse_arrays_sized_def Let_def)
next
  case (Some t)
  obtain m xm ym where t: "t = (m, xm, ym)" by (cases t)
  from assms show ?thesis
    unfolding Some t add_ellipses_def Let_def
    by (simp add: add_match_ellipse_arrays) (simp add: ellipse_at_def ellipse_arrays_sized_def)
qed

lemma add_ellipses_count:
  "(\<forall>m xm ym. matched = Some (m, xm, ym) \<longrightarrow> lacks_shape m) \<Longrightarrow>
   num_match_ellipses (add_ellipses args scale index row xc yc matched ov) = num_match_ellipses ov"
  by (auto simp: add_ellipses_def Let_def add_match_ellipse_lacks split: option.splits)

lemma add_crosshairs_directives:
  "\<exists>ds. add_crosshairs args xc yc matched ov = ov \<lparr> directives := ds \<rparr>"
proof (cases "no_crosshair args")
  case True
  then have "add_crosshairs args xc yc matched ov = ov \<lparr> directives := directives ov \<rparr>"
    by (simp add: add_crosshairs_def)
  then show ?thesis by blast
next
  case False
  then show ?thesis by (simp add: add_crosshairs_def) blast
qed

lemma add_annotations_directives:
  assumes "add_annotations env info_fmt match_fmt row xc yc matched ov = (out, Go ov')"
  shows "\<exists>ds. ov' = ov \<lparr> directives := ds \<rparr>"
proof -
  from andthen_Go [OF assms [unfolded add_annotations_def]]
  obtain o1 ov1 o2 where
    s1: "(if truthy info_fmt
          then (case interpolate env (the info_fmt) row of
                  None \<Rightarrow> ([InvalidAnnotateFormat (the info_fmt)], Return (-1))
                | Some annotation \<Rightarrow>
                    ([], Go (ov \<lparr> directives := directives ov @ [Annotation annotation xc yc] \<rparr>)))
          else ([], Go ov)) = (o1, Go ov1)"
    and s2: "(case matched of
                None \<Rightarrow> ([], Go ov1)
              | Some (m, xm, ym) \<Rightarrow>
                  if truthy match_fmt
                  then (case interpolate_match env (the match_fmt) m of
                          None \<Rightarrow> ([InvalidMatchFormat (the match_fmt)], Return (-1))
                        | Some annotation \<Rightarrow>
                            ([], Go (ov1 \<lparr> directives := directives ov1
                                             @ [MatchAnnotation annotation xm ym] \<rparr>)))
                  else ([], Go ov1)) = (o2, Go ov')"
    by blast
  from s1 have a: "\<exists>ds. ov1 = ov \<lparr> directives := ds \<rparr>"
    by (auto split: if_splits option.splits intro: exI [of _ "directives ov"])
  from s2 have b: "\<exists>ds. ov' = ov1 \<lparr> directives := ds \<rparr>"
    by (auto split: if_splits option.splits prod.splits intro: exI [of _ "directives ov1"])
  from a b show ?thesis by auto
qed

lemma directives_irrelevant:
  "ellipse_at (ov \<lparr> directives := ds \<rparr>) j = ellipse_at ov j"
  "ellipse_arrays_sized (ov \<lparr> directives := ds \<rparr>) n = ellipse_arrays_sized ov n"
  "num_match_ellipses (ov \<lparr> directives := ds \<rparr>) = num_match_ellipses ov"
  by (simp_all add: ellipse_at_def ellipse_arrays_sized_def)

lemma annotate_object_split:
  assumes "annotate_object env args sv detected info_fmt match_fmt index row ov = (out, Go ov')"
  shows "\<exists>matched ds.
           (\<forall>m xm ym. matched = Some (m, xm, ym) \<longrightarrow> m \<in> set detected)
           \<and> ov' = add_ellipses args (pixel_scale sv) index row
                     (0.5 * real_of_int (image_width sv) + row_dx row / pixel_scale sv)
                     (0.5 * real_of_int (image_height sv) + row_dy row / pixel_scale sv)
                     matched (ov \<lparr> directives := ds \<rparr>)"
proof -
  let ?xc = "0.5 * real_of_int (image_width sv) + row_dx row / pixel_scale sv"
  let ?yc = "0.5 * real_of_int (image_height sv) + row_dy row / pixel_scale sv"
  obtain match_inf where mr: "match_row args detected row = Inr match_inf"
    using assms by (cases "match_row args detected row") (simp_all add: annotate_object_def)
  obtain matched where mc: "match_center match_inf = Inr matched"
    using assms mr by (cases "match_center match_inf") (simp_all add: annotate_object_def Let_def)
  have mem: "\<forall>m xm ym. matched = Some (m, xm, ym) \<longrightarrow> m \<in> set detected"
    using mr mc
    by (auto simp: match_row_def match_center_def split: if_splits option.splits sum.splits)
  from assms mr mc have
    "andthen (add_annotations env info_fmt match_fmt row ?xc ?yc matched
                (add_crosshairs args ?xc ?yc matched ov))
             (\<lambda>ov. ([], Go (add_ellipses args (pixel_scale sv) index row ?xc ?yc matched ov)))
       = (out, Go ov')"
    by (simp add: annotate_object_def Let_def)
  from andthen_Go [OF this] obtain o1 ov1 where
    an: "add_annotations env info_fmt match_fmt row ?xc ?yc matched
           (add_crosshairs args ?xc ?yc matched ov) = (o1, Go ov1)"
    and fin: "ov' = add_ellipses args (pixel_scale sv) index row ?xc ?yc matched ov1"
    by auto
  from add_annotations_directives [OF an] add_crosshairs_directives [of args ?xc ?yc matched ov]
  obtain ds where "ov1 = ov \<lparr> directives := ds \<rparr>" by auto
  with fin mem show ?thesis by blast
qed

lemma annotate_object_geometry:
  assumes "annotate_object env args sv detected info_fmt match_fmt index row ov = (out, Go ov')"
    and "draw_moments args" and "ellipse_arrays_sized ov n" and "index < n"
  shows "ellipse_arrays_sized ov' n
       \<and> ellipse_at ov' index
           = (Some (0.5 * real_of_int (image_width sv) + row_dx row / pixel_scale sv,
                    0.5 * real_of_int (image_height sv) + row_dy row / pixel_scale sv),
              Some (row_a row / pixel_scale sv), Some (row_b row / pixel_scale sv),
              Some (degrees (row_beta row)))
       \<and> (\<forall>j. j \<noteq> index \<longrightarrow> ellipse_at ov' j = ellipse_at ov j)"
proof -
  from annotate_object_split [OF assms(1)] obtain matched ds where
    ov': "ov' = add_ellipses args (pixel_scale sv) index row
                  (0.5 * real_of_int (image_width sv) + row_dx row / pixel_scale sv)
                  (0.5 * real_of_int (image_height sv) + row_dy row / pixel_scale sv)
                  matched (ov \<lparr> directives := ds \<rparr>)"
    by blast
  have sized: "ellipse_arrays_sized (ov \<lparr> directives := ds \<rparr>) n"
    using assms(3) by (simp add: directives_irrelevant)
  show ?thesis
    unfolding ov'
    using add_ellipses_geometry [OF assms(2) sized assms(4)]
    by (simp add: directives_irrelevant)
qed

lemma annotate_object_count:
  assumes "annotate_object env args sv detected info_fmt match_fmt index row ov = (out, Go ov')"
    and "\<forall>m \<in> set detected. lacks_shape m"
  shows "num_match_ellipses ov' = num_match_ellipses ov"
proof -
  from annotate_object_split [OF assms(1)] obtain matched ds where
    mem: "\<forall>m xm ym. matched = Some (m, xm, ym) \<longrightarrow> m \<in> set detected"
    and ov': "ov' = add_ellipses args (pixel_scale sv) index row
                  (0.5 * real_of_int (image_width sv) + row_dx row / pixel_scale sv)
                  (0.5 * real_of_int (image_height sv) + row_dy row / pixel_scale sv)
                  matched (ov \<lparr> directives := ds \<rparr>)"
    by blast
  from mem assms(2) have "\<forall>m xm ym. matched = Some (m, xm, ym) \<longrightarrow> lacks_shape m"
    by blast
  from add_ellipses_count [OF this] show ?thesis
    unfolding ov' by (simp add: directives_irrelevant)
qed

lemma annotate_loop_geometry:
  assumes step: "\<And>index row ov out ov'. body index row ov = (out, Go ov')
             \<Longrightarrow> ellipse_arrays_sized ov n \<Longrightarrow> index < n
             \<Longrightarrow> ellipse_arrays_sized ov' n \<and> ellipse_at ov' index = E row
                 \<and> (\<forall>j. j \<noteq> index \<longrightarrow> ellipse_at ov' j = ellipse_at ov j)"
    and "annotate_loop body tbl ps ov = (out, Go ov')"
    and "ellipse_arrays_sized ov n"
    and "\<forall>p \<in> set ps. fst p < n" and "distinct (map fst ps)"
  shows "ellipse_arrays_sized ov' n
       \<and> (\<forall>p \<in> set ps. ellipse_at ov' (fst p) = E (tbl ! snd p))
       \<and> (\<forall>j. j \<notin> fst ` set ps \<longrightarrow> ellipse_at ov' j = ellipse_at ov j)"
  using assms(2-)
proof (induction ps arbitrary: ov out)
  case Nil
  then show ?case by simp
next
  case (Cons p ps)
  obtain index selected where p: "p = (index, selected)" by (cases p)
  from andthen_Go [OF Cons.prems(1) [unfolded p annotate_loop.simps]]
  obtain o1 ov1 o2 where
    body: "body index (tbl ! selected) ov = (o1, Go ov1)"
    and rest: "annotate_loop body tbl ps ov1 = (o2, Go ov')"
    by blast
  have idx: "index < n" using Cons.prems(3) p by simp
  from step [OF body Cons.prems(2) idx]
  have s1: "ellipse_arrays_sized ov1 n" and e1: "ellipse_at ov1 index = E (tbl ! selected)"
    and o1: "\<And>j. j \<noteq> index \<Longrightarrow> ellipse_at ov1 j = ellipse_at ov j"
    by blast+
  have fresh: "index \<notin> fst ` set ps" using Cons.prems(4) p by force
  have b2: "\<forall>p \<in> set ps. fst p < n" using Cons.prems(3) by simp
  have d2: "distinct (map fst ps)" using Cons.prems(4) by simp
  from Cons.IH [OF rest s1 b2 d2]
  have s2: "ellipse_arrays_sized ov' n"
    and e2: "\<And>q. q \<in> set ps \<Longrightarrow> ellipse_at ov' (fst q) = E (tbl ! snd q)"
    and o2: "\<And>j. j \<notin> fst ` set ps \<Longrightarrow> ellipse_at ov' j = ellipse_at ov1 j"
    by blast+
  have here: "ellipse_at ov' index = E (tbl ! selected)"
    using o2 [OF fresh] e1 by simp
  have there: "\<And>j. j \<notin> fst ` set (p # ps) \<Longrightarrow> ellipse_at ov' j = ellipse_at ov j"
  proof -
    fix j assume "j \<notin> fst ` set (p # ps)"
    then have "j \<noteq> index" and "j \<notin> fst ` set ps" using p by auto
    then show "ellipse_at ov' j = ellipse_at ov j" using o1 o2 by simp
  qed
  have every: "\<forall>q \<in> set (p # ps). ellipse_at ov' (fst q) = E (tbl ! snd q)"
    using here e2 p by auto
  from s2 every there show ?case by blast
qed

lemma annotate_loop_count:
  assumes "annotate_loop (annotate_object env args sv detected info_fmt match_fmt) tbl ps ov
             = (out, Go ov')"
    and "\<forall>m \<in> set detected. lacks_shape m"
  shows "num_match_ellipses ov' = num_match_ellipses ov"
  using assms(1)
proof (induction ps arbitrary: ov out)
  case Nil
  then show ?case by simp
next
  case (Cons p ps)
  obtain index selected where p: "p = (index, selected)" by (cases p)
  from andthen_Go [OF Cons.prems [unfolded p annotate_loop.simps]]
  obtain o1 ov1 o2 where
    body: "annotate_object env args sv detected info_fmt match_fmt index (tbl ! selected) ov
             = (o1, Go ov1)"
    and rest: "annotate_loop (annotate_object env args sv detected info_fmt match_fmt) tbl ps ov1
                 = (o2, Go ov')"
    by blast
  from Cons.IH [OF rest] annotate_object_count [OF body assms(2)] show ?case by simp
qed

text \<open>
  C4 (as stated).  The claim gives each ellipse the width \<open>2 * a / scale\<close> and the height
  \<open>2 * b / scale\<close>.  For the third example row (\<open>a = b = 0.6\<close>, pixel scale 0.2) the
  program stores the width 3 and the height 3, where the claim has 6.
\<close>

theorem ellipse_width_counterexample:
  "annotate_object example_env (default_args \<lparr> draw_moments := True \<rparr>) example_survey []
     None None 0 (example_table ! 2) (empty_overlay 1)
     = ([], Go \<lparr> directives = [Crosshair 1 2],
                 ellipse_centers = [Some (1, 2)], ellipse_widths = [Some 3],
                 ellipse_heights = [Some 3], ellipse_angles = [Some 0],
                 match_ellipse_centers = [None], match_ellipse_widths = [None],
                 match_ellipse_heights = [None], match_ellipse_angles = [None],
                 num_match_ellipses = 0 \<rparr>)
   \<and> 2 * row_a (example_table ! 2) / pixel_scale example_survey = 6"
  by (simp add: annotate_object_def match_row_def match_center_def default_args_def truthy_def
      example_survey_def example_table_def add_crosshairs_def add_annotations_def andthen_def
      add_ellipses_def empty_overlay_def degrees_def Let_def)

text \<open>
  C4 (amended).  When \<^verbatim>\<open>--draw-moments\<close> is given and the loop over the selected objects
  runs through, the ellipse of every selected object has its centre at the display
  coordinates \<open>(0.5 * image_width + dx / scale, 0.5 * image_height + dy / scale)\<close>, the
  width \<open>a / scale\<close>, the height \<open>b / scale\<close> and the angle \<open>beta * 180 / pi\<close>; these
  arrays are handed to the ellipse collection; and when the rows of the detection catalog
  lack a shape field, no match ellipse is counted and no match collection is drawn.
\<close>

theorem ellipse_geometry:
  assumes "annotate_loop (annotate_object env args sv detected info_fmt match_fmt) tbl
             (zip [0 ..< length indices] indices) (empty_overlay (length indices)) = (out, Go ov)"
    and "draw_moments args"
  shows "(\<forall>i < length indices.
            ellipse_at ov i
              = (Some (0.5 * real_of_int (image_width sv)
                         + row_dx (tbl ! (indices ! i)) / pixel_scale sv,
                       0.5 * real_of_int (image_height sv)
                         + row_dy (tbl ! (indices ! i)) / pixel_scale sv),
                 Some (row_a (tbl ! (indices ! i)) / pixel_scale sv),
                 Some (row_b (tbl ! (indices ! i)) / pixel_scale sv),
                 Some (row_beta (tbl ! (indices ! i)) * 180 / pi)))
       \<and> ellipses (draw args v view_bounds rgb_image ov)
           = Some (ellipse_centers ov, ellipse_widths ov, ellipse_heights ov, ellipse_angles ov)
       \<and> ((\<forall>m \<in> set detected. lacks_shape m)
            \<longrightarrow> num_match_ellipses ov = 0
                \<and> match_ellipses (draw args v view_bounds rgb_image ov) = None)"
proof -
  let ?ps = "zip [0 ..< length indices] indices"
  have sized: "ellipse_arrays_sized (empty_overlay (length indices)) (length indices)"
    by (simp add: ellipse_arrays_sized_def empty_overlay_def)
  have bound: "\<forall>p \<in> set ?ps. fst p < length indices"
    by (auto dest: set_zip_leftD)
  have dist: "distinct (map fst ?ps)" by simp
  let ?E = "\<lambda>row. (Some (0.5 * real_of_int (image_width sv) + row_dx row / pixel_scale sv,
                         0.5 * real_of_int (image_height sv) + row_dy row / pixel_scale sv),
                   Some (row_a row / pixel_scale sv), Some (row_b row / pixel_scale sv),
                   Some (degrees (row_beta row)))"
  have g: "ellipse_arrays_sized ov (length indices)
       \<and> (\<forall>p \<in> set ?ps. ellipse_at ov (fst p) = ?E (tbl ! snd p))
       \<and> (\<forall>j. j \<notin> fst ` set ?ps \<longrightarrow>
             ellipse_at ov j = ellipse_at (empty_overlay (length indices)) j)"
  proof (rule annotate_loop_geometry [where E = ?E])
    fix index row ov1 out1 ov2
    assume "annotate_object env args sv detected info_fmt match_fmt index row ov1 = (out1, Go ov2)"
      and "ellipse_arrays_sized ov1 (length indices)" and "index < length indices"
    then show "ellipse_arrays_sized ov2 (length indices) \<and> ellipse_at ov2 index = ?E row
                 \<and> (\<forall>j. j \<noteq> index \<longrightarrow> ellipse_at ov2 j = ellipse_at ov1 j)"
      using annotate_object_geometry [OF _ assms(2)] by blast
  next
    show "annotate_loop (annotate_object env args sv detected info_fmt match_fmt) tbl ?ps
            (empty_overlay (length indices)) = (out, Go ov)"
      by (rule assms(1))
  qed (rule sized bound dist)+
  have a: "\<forall>i < length indices.
            ellipse_at ov i
              = (Some (0.5 * real_of_int (image_width sv)
                         + row_dx (tbl ! (indices ! i)) / pixel_scale sv,
                       0.5 * real_of_int (image_height sv)
                         + row_dy (tbl ! (indices ! i)) / pixel_scale sv),
                 Some (row_a (tbl ! (indices ! i)) / pixel_scale sv),
                 Some (row_b (tbl ! (indices ! i)) / pixel_scale sv),
                 Some (row_beta (tbl ! (indices ! i)) * 180 / pi))"
  proof (intro allI impI)
    fix i assume i: "i < length indices"
    then have "(i, indices ! i) \<in> set ?ps"
      by (auto simp: in_set_zip intro!: exI [of _ i])
    from g this have "ellipse_at ov (fst (i, indices ! i)) = ?E (tbl ! snd (i, indices ! i))"
      by blast
    then show "ellipse_at ov i
              = (Some (0.5 * real_of_int (image_width sv)
                         + row_dx (tbl ! (indices ! i)) / pixel_scale sv,
                       0.5 * real_of_int (image_height sv)
                         + row_dy (tbl ! (indices ! i)) / pixel_scale sv),
                 Some (row_a (tbl ! (indices ! i)) / pixel_scale sv),
                 Some (row_b (tbl ! (indices ! i)) / pixel_scale sv),
                 Some (row_beta (tbl ! (indices ! i)) * 180 / pi))"
      by (simp add: degrees_def)
  qed
  have b: "ellipses (draw args v view_bounds rgb_image ov)
           = Some (ellipse_centers ov, ellipse_widths ov, ellipse_heights ov, ellipse_angles ov)"
    using assms(2) by (simp add: draw_def)
  have c: "(\<forall>m \<in> set detected. lacks_shape m)
            \<longrightarrow> num_match_ellipses ov = 0
                \<and> match_ellipses (draw args v view_bounds rgb_image ov) = None"
  proof
    assume l: "\<forall>m \<in> set detected. lacks_shape m"
    from annotate_loop_count [OF assms(1) l]
    have "num_match_ellipses ov = 0" by (simp add: empty_overlay_def)
    then show "num_match_ellipses ov = 0
                \<and> match_ellipses (draw args v view_bounds rgb_image ov) = None"
      by (simp add: draw_def)
  qed
  from a b c show ?thesis by blast
qed

theorem ellipse_geometry_witness:
  "draw_moments (default_args \<lparr> draw_moments := True, match_catalog := Some ''catalog'' \<rparr>)
   \<and> lacks_shape [(''X_IMAGE'', 2.5), (''Y_IMAGE'', 2.5)]
   \<and> (\<exists>out ov.
         annotate_loop
           (annotate_object example_env
              (default_args \<lparr> draw_moments := True, match_catalog := Some ''catalog'' \<rparr>)
              example_survey [[(''X_IMAGE'', 2.5), (''Y_IMAGE'', 2.5)]] None None)
           example_table (zip [0 ..< length [0, 2::nat]] [0, 2]) (empty_overlay (length [0, 2::nat]))
           = (out, Go ov)
         \<and> ellipse_at ov 0 = (Some (2.6172835, 4.5), Some 5, Some 2.5, Some 0)
         \<and> ellipse_at ov 1 = (Some (1, 2), Some 3, Some 3, Some 0)
         \<and> num_match_ellipses ov = 0
         \<and> match_ellipses
             (draw (default_args \<lparr> draw_moments := True, match_catalog := Some ''catalog'' \<rparr>)
                (0, 4, 0, 4) (bounds example_image) [] ov) = None)"
proof -
  let ?args = "default_args \<lparr> draw_moments := True, match_catalog := Some ''catalog'' \<rparr>"
  let ?detected = "[[(''X_IMAGE'', 2.5), (''Y_IMAGE'', 2.5 :: real)]]"
  have dm: "draw_moments ?args" by simp
  have ls: "lacks_shape [(''X_IMAGE'', 2.5), (''Y_IMAGE'', 2.5)]"
    by (simp add: lacks_shape_def field_def)
  then have all: "\<forall>m \<in> set ?detected. lacks_shape m" by simp
  have "\<exists>out ov. annotate_loop
           (annotate_object example_env ?args example_survey ?detected None None)
           example_table (zip [0 ..< length [0, 2::nat]] [0, 2]) (empty_overlay (length [0, 2::nat]))
           = (out, Go ov)"
    by (simp add: upt_rec annotate_object_def match_row_def match_center_def
        default_args_def truthy_def field_def
        example_survey_def example_table_def add_crosshairs_def add_annotations_def andthen_def
        add_ellipses_def add_match_ellipse_def empty_overlay_def degrees_def Let_def)
  then obtain out ov where run: "annotate_loop
           (annotate_object example_env ?args example_survey ?detected None None)
           example_table (zip [0 ..< length [0, 2::nat]] [0, 2]) (empty_overlay (length [0, 2::nat]))
           = (out, Go ov)"
    by blast
  note g = ellipse_geometry [OF run dm, of "(0, 4, 0, 4)" "bounds example_image" "[]"]
  from g have e0: "ellipse_at ov 0 = (Some (2.6172835, 4.5), Some 5, Some 2.5, Some 0)"
    by (simp add: example_survey_def example_table_def)
  from g have e1: "ellipse_at ov 1 = (Some (1, 2), Some 3, Some 3, Some 0)"
    by (simp add: example_survey_def example_table_def)
  from g all have n: "num_match_ellipses ov = 0
      \<and> match_ellipses (draw ?args (0, 4, 0, 4) (bounds example_image) [] ov) = None"
    by blast
  from dm ls run e0 e1 n show ?thesis by blast
qed

end
